theory Spec2Isabelle
  imports Main
begin

section \<open>Data model of \<^verbatim>\<open>api/src/services/relations.ts\<close>\<close>

text \<open>
  The types the service imports from \<^verbatim>\<open>@directus/shared/types\<close> and
  \<^verbatim>\<open>@directus/schema\<close>, with the attributes the service reads or writes.
  A value that may be \<^verbatim>\<open>null\<close> or \<^verbatim>\<open>undefined\<close> is an \<open>option\<close>.
  Several records have an attribute of the same name, as in the source; they are told
  apart by the record's name (\<open>permission.collection\<close>, \<open>relation.collection\<close>).
\<close>

record permission =
  action :: string
  collection :: string
  fields_of :: "string list option"  \<comment> \<open>\<^verbatim>\<open>permission.fields\<close>\<close>

record accountability =
  admin :: bool  \<comment> \<open>\<^verbatim>\<open>admin === true\<close>\<close>
  permissions :: "permission list option"

record relation_meta =
  meta_id :: nat  \<comment> \<open>\<^verbatim>\<open>meta.id\<close>\<close>
  many_collection :: string
  many_field :: string
  one_collection :: "string option"
  one_field :: "string option"
  one_allowed_collections :: "string list option"

record foreign_key =
  table :: string
  column :: string
  foreign_key_table :: string
  constraint_name :: "string option"
  on_delete :: "string option"

record relation =
  collection :: string
  field :: string
  related_collection :: "string option"
  schema :: "foreign_key option"
  meta :: "relation_meta option"

text \<open>\<^verbatim>\<open>Partial<Relation>\<close>: every attribute may be missing.\<close>

record partial_relation =
  collection :: "string option"
  field :: "string option"
  related_collection :: "string option"
  schema :: "foreign_key option"
  meta :: "relation_meta option"

text \<open>
  JavaScript truthiness of a string (\<^verbatim>\<open>if (s)\<close>, \<^verbatim>\<open>s && ...\<close>, \<^verbatim>\<open>s || ...\<close>):
  \<^verbatim>\<open>null\<close>, \<^verbatim>\<open>undefined\<close> and the empty string are falsy.
\<close>

definition truthy :: "string option \<Rightarrow> bool" where
  "truthy s = (case s of None \<Rightarrow> False | Some v \<Rightarrow> v \<noteq> [])"

text \<open>\<^verbatim>\<open>xs.includes(x)\<close>\<close>

definition array_includes :: "'a list \<Rightarrow> 'a \<Rightarrow> bool" where
  "array_includes xs x = (x \<in> set xs)"

section \<open>The access filter\<close>

text \<open>
  \<^verbatim>\<open>allowedCollections\<close> of \<^verbatim>\<open>filterForbidden\<close>: the collections of the
  caller's permissions whose action is \<^verbatim>\<open>read\<close>, or \<^verbatim>\<open>[]\<close> without permissions.
\<close>

definition allowedCollections :: "accountability \<Rightarrow> string list" where
  "allowedCollections a =
     (case permissions a of
        None \<Rightarrow> []
      | Some ps \<Rightarrow> map permission.collection (filter (\<lambda>p. action p = ''read'') ps))"

text \<open>
  The callback of \<^verbatim>\<open>relations.filter\<close>, with its two flags. \<open>allowedFields\<close>
  is what \<^verbatim>\<open>permissionsService.getAllowedFields('read')\<close> returned: a dictionary
  from collection to field list.
\<close>

definition relationAllowed ::
  "string list \<Rightarrow> (string \<rightharpoonup> string list) \<Rightarrow> relation \<Rightarrow> bool" where
  "relationAllowed allowedColls allowedFields r =
     (let collectionsAllowed0 = True;
          fieldsAllowed0 = True;
          collectionsAllowed1 =
            (if array_includes allowedColls (relation.collection r) = False then False
             else collectionsAllowed0);
          collectionsAllowed2 =
            (if truthy (relation.related_collection r) \<and>
                array_includes allowedColls (the (relation.related_collection r)) = False
             then False else collectionsAllowed1);
          collectionsAllowed3 =
            (case relation.meta r of
               None \<Rightarrow> collectionsAllowed2
             | Some m \<Rightarrow>
                 (case one_allowed_collections m of
                    None \<Rightarrow> collectionsAllowed2
                  | Some cs \<Rightarrow>
                      if list_all (\<lambda>c. array_includes allowedColls c) cs = False then False
                      else collectionsAllowed2));
          fieldsAllowed1 =
            (case allowedFields (relation.collection r) of
               None \<Rightarrow> False
             | Some fs \<Rightarrow>
                 if array_includes fs ''*'' = False \<and> array_includes fs (relation.field r) = False
                 then False else fieldsAllowed0);
          fieldsAllowed2 =
            (if truthy (relation.related_collection r) \<and>
                (case relation.meta r of None \<Rightarrow> False | Some m \<Rightarrow> truthy (one_field m))
             then
               (case allowedFields (the (relation.related_collection r)) of
                  None \<Rightarrow> False
                | Some fs \<Rightarrow>
                    if array_includes fs ''*'' = False \<and>
                       array_includes fs (the (one_field (the (relation.meta r)))) = False
                    then False else fieldsAllowed1)
             else fieldsAllowed1)
      in collectionsAllowed3 \<and> fieldsAllowed2)"

text \<open>
  \<^verbatim>\<open>filterForbidden\<close>. The service's accountability is \<^verbatim>\<open>null\<close> (\<open>None\<close>)
  or an accountability object.
\<close>

definition filterForbidden ::
  "accountability option \<Rightarrow> (string \<rightharpoonup> string list) \<Rightarrow> relation list \<Rightarrow> relation list" where
  "filterForbidden acc allowedFields relations =
     (case acc of
        None \<Rightarrow> relations
      | Some a \<Rightarrow>
          if admin a then relations
          else filter (relationAllowed (allowedCollections a) allowedFields) relations)"


section \<open>The collaborators of the service\<close>

text \<open>
  The schema snapshot \<^verbatim>\<open>this.schema\<close> (a \<^verbatim>\<open>SchemaOverview\<close>) is not part of this
  file's source: each of its queries is taken as it answers. A dictionary is a map; the
  dictionary of \<^verbatim>\<open>getRelationsForCollection\<close> is read through \<^verbatim>\<open>Object.values\<close>
  only, so it is kept as a list of key and value. \<^verbatim>\<open>getField\<close> and
  \<^verbatim>\<open>getPrimaryKeyField\<close> are called with attributes of a \<^verbatim>\<open>Partial<Relation>\<close>
  under a non-null assertion, which checks nothing at run time: their arguments may be
  missing, and their answer may be \<^verbatim>\<open>null\<close>.
\<close>

record collection_overview =
  primary :: string

record field_overview =
  dbType :: "string option"

record schema_overview =
  getCollections :: "string \<rightharpoonup> collection_overview"
  getFields :: "string \<Rightarrow> (string \<rightharpoonup> field_overview)"
  getRelationsForCollection :: "string \<Rightarrow> (string \<times> relation) list"
  hasCollection :: "string \<Rightarrow> bool"
  hasField :: "string \<Rightarrow> string \<Rightarrow> bool"
  getRelationsForField :: "string \<Rightarrow> string \<Rightarrow> relation option"
  getCollection :: "string \<Rightarrow> collection_overview option"
  getField :: "string option \<Rightarrow> string option \<Rightarrow> field_overview option"
  getPrimaryKeyField :: "string option \<Rightarrow> field_overview option"

text \<open>
  The \<^verbatim>\<open>Query\<close> given to \<^verbatim>\<open>readByQuery\<close>: its limit and the conjunction of
  \<^verbatim>\<open>_eq\<close> conditions of its filter (empty when the query has no filter).
\<close>

record query =
  limit :: int
  filter_eq :: "(string \<times> string) list"

text \<open>
  The attributes of \<^verbatim>\<open>RelationsService\<close>, each by what it answers:
  \<open>schemaInspector\<close> is \<^verbatim>\<open>schemaInspector.foreignKeys(collection?)\<close>,
  \<open>permissionsService\<close> is \<^verbatim>\<open>permissionsService.getAllowedFields(action)\<close>,
  \<open>relationsItemService\<close> is \<^verbatim>\<open>relationsItemService.readByQuery(query)\<close>, and
  \<open>helpers\<close> is the answer of \<^verbatim>\<open>helpers.schema.preColumnChange()\<close>.
\<close>

record RelationsService =
  accountability :: "accountability option"
  schema :: schema_overview
  schemaInspector :: "string option \<Rightarrow> foreign_key list"
  permissionsService :: "string \<Rightarrow> (string \<rightharpoonup> string list)"
  relationsItemService :: "query \<Rightarrow> relation_meta list"
  helpers :: bool

section \<open>Errors and effects\<close>

datatype error =
    Forbidden  \<comment> \<open>\<^verbatim>\<open>ForbiddenException\<close>\<close>
  | InvalidPayload string  \<comment> \<open>\<^verbatim>\<open>InvalidPayloadException(message)\<close>\<close>
  | TypeError  \<comment> \<open>reading an attribute of \<^verbatim>\<open>null\<close> or \<^verbatim>\<open>undefined\<close>\<close>
  | CollaboratorError string  \<comment> \<open>what the database, a schema hook or the cache raised\<close>

text \<open>What the callback of \<^verbatim>\<open>alterTable\<close> asks of the table builder, in order.\<close>

datatype table_op =
    DropForeign string string
    \<comment> \<open>\<^verbatim>\<open>table.dropForeign(field, constraintName)\<close>\<close>
  | SpecificTypeAlter "string option" string
    \<comment> \<open>\<^verbatim>\<open>table.specificType(field, type).alter()\<close>\<close>
  | Foreign string "string option" string "string option"
    \<comment> \<open>\<^verbatim>\<open>table.foreign(field, name).references(ref)\<close>, with \<^verbatim>\<open>.onDelete(action)\<close> when given\<close>

text \<open>
  The row given to \<^verbatim>\<open>relationsItemService.createOne\<close>: the spread of
  \<^verbatim>\<open>relation.meta || {}\<close>, overridden by the three attributes written after it.
\<close>

record meta_row =
  spread :: "relation_meta option"
  row_many_collection :: "string option"
  row_many_field :: "string option"
  row_one_collection :: "string option"

text \<open>The calls by which the service changes something outside itself.\<close>

datatype call =
    PreColumnChange  \<comment> \<open>\<^verbatim>\<open>helpers.schema.preColumnChange()\<close>\<close>
  | PostColumnChange  \<comment> \<open>\<^verbatim>\<open>helpers.schema.postColumnChange()\<close>\<close>
  | TransactionBegin  \<comment> \<open>\<^verbatim>\<open>knex.transaction\<close> opens\<close>
  | Commit
  | Rollback
  | AlterTable string "table_op list"  \<comment> \<open>\<^verbatim>\<open>trx.schema.alterTable(collection, callback)\<close>\<close>
  | ItemsCreateOne meta_row  \<comment> \<open>\<^verbatim>\<open>relationsItemService.createOne(row)\<close> on \<^verbatim>\<open>trx\<close>\<close>
  | ItemsUpdateOne nat relation_meta  \<comment> \<open>\<^verbatim>\<open>relationsItemService.updateOne(id, meta)\<close> on \<^verbatim>\<open>trx\<close>\<close>
  | ForeignKeys  \<comment> \<open>\<^verbatim>\<open>schemaInspector.foreignKeys()\<close> in \<^verbatim>\<open>deleteOne\<close>\<close>
  | DeleteRelations string string
    \<comment> \<open>\<^verbatim>\<open>trx('directus_relations').delete().where({many_collection, many_field})\<close>\<close>
  | SetHashFull string bool  \<comment> \<open>\<^verbatim>\<open>systemCache.setHashFull(key, value)\<close>\<close>
  | ClearRelationsForField string string  \<comment> \<open>\<^verbatim>\<open>clearRelationsForField(collection, field)\<close>\<close>

text \<open>
  What the service imports from modules outside this file; \<open>raises\<close>: for each call,
  whether the collaborator raises there and with which message; and \<open>awaits_callback\<close>:
  whether the table builder of \<^verbatim>\<open>alterTable\<close> waits for the promise that an
  asynchronous callback returns.
\<close>

record environment =
  stitchRelations :: "relation_meta list \<Rightarrow> foreign_key list \<Rightarrow> relation list"
  systemRelationRows :: "relation_meta list"
  getDefaultIndexName :: "string \<Rightarrow> string \<Rightarrow> string \<Rightarrow> string"
  raises :: "call \<Rightarrow> string option"
  awaits_callback :: bool

text \<open>
  An operation returns its outcome, \<open>Inl\<close> the exception raised, and the calls it made,
  in order.
\<close>

type_synonym 'a io = "(error + 'a) \<times> call list"

definition return_io :: "'a \<Rightarrow> 'a io" where
  "return_io x = (Inr x, [])"

definition throw_io :: "error \<Rightarrow> 'a io" where
  "throw_io e = (Inl e, [])"

definition bind_io :: "'a io \<Rightarrow> ('a \<Rightarrow> 'b io) \<Rightarrow> 'b io" where
  "bind_io m f =
     (case m of
        (Inl e, l) \<Rightarrow> (Inl e, l)
      | (Inr x, l) \<Rightarrow> (case f x of (r, l') \<Rightarrow> (r, l @ l')))"

definition invoke :: "environment \<Rightarrow> call \<Rightarrow> unit io" where
  "invoke E c =
     (case raises E c of
        None \<Rightarrow> (Inr (), [c])
      | Some msg \<Rightarrow> (Inl (CollaboratorError msg), [c]))"

text \<open>
  \<^verbatim>\<open>knex.transaction(callback)\<close>: commit when the callback returns, roll back and
  raise again when it raises.
\<close>

definition transaction :: "environment \<Rightarrow> unit io \<Rightarrow> unit io" where
  "transaction E body =
     bind_io (invoke E TransactionBegin) (\<lambda>_.
       case body of
         (Inl e, l) \<Rightarrow> (Inl e, l @ [Rollback])
       | (Inr _, l) \<Rightarrow> bind_io (Inr (), l) (\<lambda>_. invoke E Commit))"

text \<open>
  \<^verbatim>\<open>try { body } finally { cleanup }\<close>: the cleanup runs after the body however the
  body ended; the outcome is the body's, unless the cleanup itself raises.
\<close>

definition try_finally :: "'a io \<Rightarrow> unit io \<Rightarrow> 'a io" where
  "try_finally body cleanup =
     (case body of
        (r, l) \<Rightarrow>
          (case cleanup of
             (Inl e, l') \<Rightarrow> (Inl e, l @ l')
           | (Inr _, l') \<Rightarrow> (r, l @ l')))"

text \<open>
  \<^verbatim>\<open>trx.schema.alterTable(collection, callback)\<close> with the asynchronous callbacks of
  \<^verbatim>\<open>createOne\<close> and \<^verbatim>\<open>updateOne\<close>. \<open>asked_first\<close> is what the callback asks of
  the table builder before its first \<^verbatim>\<open>await\<close>; \<open>asked_later\<close> is what it asks from
  there on, or the error it raises there. When the builder waits for the callback, the
  callback runs to its end before the table is altered, and when it raises, nothing it
  asked for is carried out. When the builder does not wait (it calls the callback and
  drops the promise, as knex does), only \<open>asked_first\<close> reaches the database, and an
  error raised after the first \<^verbatim>\<open>await\<close> does not reach the transaction.
\<close>

definition alterTable ::
  "environment \<Rightarrow> string \<Rightarrow> table_op list \<Rightarrow> error + table_op list \<Rightarrow> unit io" where
  "alterTable E coll asked_first asked_later =
     (if awaits_callback E then
        (case asked_later of
           Inl e \<Rightarrow> throw_io e
         | Inr ops \<Rightarrow> invoke E (AlterTable coll (asked_first @ ops)))
      else invoke E (AlterTable coll asked_first))"

definition preColumnChange :: "environment \<Rightarrow> RelationsService \<Rightarrow> bool io" where
  "preColumnChange E S = bind_io (invoke E PreColumnChange) (\<lambda>_. return_io (helpers S))"

section \<open>The reading operations\<close>

text \<open>The getter \<^verbatim>\<open>hasReadAccess\<close>.\<close>

definition hasReadAccess :: "RelationsService \<Rightarrow> bool" where
  "hasReadAccess S =
     (case accountability S of
        None \<Rightarrow> False
      | Some a \<Rightarrow>
          (case permissions a of
             None \<Rightarrow> False
           | Some ps \<Rightarrow>
               find (\<lambda>p. permission.collection p = ''directus_relations'' \<and> action p = ''read'') ps
                 \<noteq> None))"

text \<open>
  \<^verbatim>\<open>readAll(collection?)\<close>. The options \<^verbatim>\<open>opts\<close> are only handed on to
  \<^verbatim>\<open>readByQuery\<close> and are left out.
\<close>

definition readAll :: "environment \<Rightarrow> RelationsService \<Rightarrow> string option \<Rightarrow> error + relation list" where
  "readAll E S coll =
     (if (case accountability S of None \<Rightarrow> False | Some a \<Rightarrow> \<not> admin a \<and> hasReadAccess S = False)
      then Inl Forbidden
      else
        let metaReadQuery =
              \<lparr>limit = -1,
               filter_eq = (if truthy coll then [(''many_collection'', the coll)] else [])\<rparr>;
            metaRows =
              filter (\<lambda>metaRow. if \<not> truthy coll then True
                                 else many_collection metaRow = the coll)
                (relationsItemService S metaReadQuery @ systemRelationRows E);
            schemaRows = schemaInspector S coll;
            results = stitchRelations E metaRows schemaRows
        in Inr (filterForbidden (accountability S) (permissionsService S ''read'') results))"

text \<open>
  \<^verbatim>\<open>readOne(collection, field)\<close>; \<open>readOne_stitched\<close> is its value
  \<^verbatim>\<open>stitched\<close> and \<open>readOne_check\<close> its first statement, the checks made for a
  caller that is not administrative. The parameters \<^verbatim>\<open>collection\<close> and
  \<^verbatim>\<open>field\<close> of the operations are written \<open>coll\<close> and \<open>fld\<close>, the attributes
  of the records having their names.
\<close>

definition readOne_stitched :: "environment \<Rightarrow> RelationsService \<Rightarrow> string \<Rightarrow> string \<Rightarrow> relation list" where
  "readOne_stitched E S coll fld =
     (let metaRow =
            relationsItemService S
              \<lparr>limit = 1, filter_eq = [(''many_collection'', coll), (''many_field'', fld)]\<rparr>;
          schemaRow = find (\<lambda>foreignKey. column foreignKey = fld) (schemaInspector S (Some coll))
      in stitchRelations E metaRow (case schemaRow of Some row \<Rightarrow> [row] | None \<Rightarrow> []))"

definition readOne_check :: "RelationsService \<Rightarrow> string \<Rightarrow> string \<Rightarrow> error + unit" where
  "readOne_check S coll fld =
     (case accountability S of
        None \<Rightarrow> Inr ()
      | Some a \<Rightarrow>
          if admin a then Inr ()
          else if hasReadAccess S = False then Inl Forbidden
          else
            (case (case permissions a of
                     None \<Rightarrow> None
                   | Some ps \<Rightarrow>
                       find (\<lambda>p. action p = ''read'' \<and> permission.collection p = coll) ps) of
               None \<Rightarrow> Inl Forbidden
             | Some perm \<Rightarrow>
                 (case fields_of perm of
                    None \<Rightarrow> Inl Forbidden
                  | Some allowedFields \<Rightarrow>
                      if array_includes allowedFields ''*'' = False \<and>
                         array_includes allowedFields fld = False
                      then Inl Forbidden else Inr ())))"

definition readOne :: "environment \<Rightarrow> RelationsService \<Rightarrow> string \<Rightarrow> string \<Rightarrow> error + relation" where
  "readOne E S coll fld =
     (case readOne_check S coll fld of
        Inl e \<Rightarrow> Inl e
      | Inr _ \<Rightarrow>
          let stitched = readOne_stitched E S coll fld;
              results = filterForbidden (accountability S) (permissionsService S ''read'') stitched
          in (case results of [] \<Rightarrow> Inl Forbidden | first # _ \<Rightarrow> Inr first))"

section \<open>The writing operations\<close>

text \<open>The guard \<^verbatim>\<open>this.accountability && this.accountability.admin !== true\<close>.\<close>

definition nonAdmin :: "RelationsService \<Rightarrow> bool" where
  "nonAdmin S = (case accountability S of None \<Rightarrow> False | Some a \<Rightarrow> \<not> admin a)"

text \<open>
  \<^verbatim>\<open>alterType(table, relation)\<close>: the outcome is what it asks of the table builder,
  or the \<^verbatim>\<open>TypeError\<close> of reading \<^verbatim>\<open>dbType\<close> of a field the snapshot does not
  have.
\<close>

definition alterType :: "RelationsService \<Rightarrow> partial_relation \<Rightarrow> error + table_op list" where
  "alterType S relation =
     (case getField (RelationsService.schema S)
             (partial_relation.collection relation) (partial_relation.field relation) of
        None \<Rightarrow> Inl TypeError
      | Some m2oField \<Rightarrow>
          (case getPrimaryKeyField (RelationsService.schema S)
                  (partial_relation.related_collection relation) of
             None \<Rightarrow> Inl TypeError
           | Some relatedField \<Rightarrow>
               let m2oFieldDBType = dbType m2oField;
                   relatedFieldDBType = dbType relatedField
               in if m2oFieldDBType \<noteq> relatedFieldDBType \<and> m2oFieldDBType = Some ''int'' \<and>
                     relatedFieldDBType = Some ''int unsigned''
                  then Inr [SpecificTypeAlter (partial_relation.field relation) ''int unsigned'']
                  else Inr []))"

text \<open>\<^verbatim>\<open>relation.schema?.on_delete\<close> when it is truthy.\<close>

definition onDelete :: "partial_relation \<Rightarrow> string option" where
  "onDelete relation =
     (case partial_relation.schema relation of
        None \<Rightarrow> None
      | Some sc \<Rightarrow> if truthy (on_delete sc) then on_delete sc else None)"

text \<open>\<^verbatim>\<open>s || null\<close>\<close>

definition or_null :: "string option \<Rightarrow> string option" where
  "or_null s = (if truthy s then s else None)"

text \<open>
  The callback of \<^verbatim>\<open>knex.transaction\<close> in \<^verbatim>\<open>createOne\<close>. The first statement
  of the callback of \<^verbatim>\<open>alterTable\<close> is \<^verbatim>\<open>await this.alterType(table, relation)\<close>,
  and \<^verbatim>\<open>alterType\<close> itself starts with an \<^verbatim>\<open>await\<close>: everything the callback
  asks of the table comes after its first \<^verbatim>\<open>await\<close>.
\<close>

definition createOne_transaction ::
  "environment \<Rightarrow> RelationsService \<Rightarrow> partial_relation \<Rightarrow> unit io" where
  "createOne_transaction E S relation =
     (let coll = the (partial_relation.collection relation);
          fld = the (partial_relation.field relation);
          collections = getCollections (RelationsService.schema S);
          metaRow =
            \<lparr>spread = partial_relation.meta relation,
             row_many_collection = partial_relation.collection relation,
             row_many_field = partial_relation.field relation,
             row_one_collection = or_null (partial_relation.related_collection relation)\<rparr>
      in bind_io
           (if truthy (partial_relation.related_collection relation) then
              alterTable E coll []
                (case alterType S relation of
                   Inl e \<Rightarrow> Inl e
                 | Inr ops \<Rightarrow>
                     let constraintName = getDefaultIndexName E ''foreign'' coll fld;
                         related = the (partial_relation.related_collection relation)
                     in (case collections related of
                           None \<Rightarrow> Inl TypeError
                         | Some relatedOverview \<Rightarrow>
                             Inr (ops @ [Foreign fld (Some constraintName)
                                           (related @ ''.'' @ primary relatedOverview)
                                           (onDelete relation)])))
            else return_io ())
           (\<lambda>_. invoke E (ItemsCreateOne metaRow)))"

text \<open>The \<^verbatim>\<open>finally\<close> block of \<^verbatim>\<open>createOne\<close>.\<close>

definition createOne_cleanup :: "environment \<Rightarrow> bool \<Rightarrow> partial_relation \<Rightarrow> unit io" where
  "createOne_cleanup E runPostColumnChange relation =
     bind_io (if runPostColumnChange then invoke E PostColumnChange else return_io ())
       (\<lambda>_. invoke E
               (SetHashFull (''relations:'' @ the (partial_relation.collection relation)) False))"

text \<open>\<^verbatim>\<open>createOne(relation)\<close>\<close>

definition createOne :: "environment \<Rightarrow> RelationsService \<Rightarrow> partial_relation \<Rightarrow> unit io" where
  \<open>createOne E S relation =
     (if nonAdmin S then throw_io Forbidden
      else if \<not> truthy (partial_relation.collection relation)
      then throw_io (InvalidPayload ''"collection" is required'')
      else if \<not> truthy (partial_relation.field relation)
      then throw_io (InvalidPayload ''"field" is required'')
      else
        let coll = the (partial_relation.collection relation);
            fld = the (partial_relation.field relation);
            collections = getCollections (RelationsService.schema S)
        in if collections coll = None
           then throw_io (InvalidPayload (''Collection "'' @ coll @ ''" doesn't exist''))
           else
             let fields = getFields (RelationsService.schema S) coll
             in if fields fld = None
                then throw_io (InvalidPayload
                       (''Field "'' @ fld @ ''" doesn't exist in collection "'' @ coll @ ''"''))
                else if primary (the (collections coll)) = fld
                then throw_io (InvalidPayload
                       (''Field "'' @ fld @ ''" in collection "'' @ coll @ ''" is a primary key''))
                else if truthy (partial_relation.related_collection relation) \<and>
                        collections (the (partial_relation.related_collection relation)) = None
                then throw_io (InvalidPayload
                       (''Collection "'' @ the (partial_relation.related_collection relation)
                          @ ''" doesn't exist''))
                else
                  (case find (\<lambda>existingRelation. relation.field existingRelation = fld)
                          (map snd (getRelationsForCollection (RelationsService.schema S) coll)) of
                     Some existingRelation \<Rightarrow>
                       throw_io (InvalidPayload
                         (''Field "'' @ fld @ ''" in collection "'' @ coll
                            @ ''" already has an associated relationship''))
                   | None \<Rightarrow>
                       bind_io (preColumnChange E S) (\<lambda>runPostColumnChange.
                         try_finally
                           (transaction E (createOne_transaction E S relation))
                           (createOne_cleanup E runPostColumnChange relation))))\<close>

text \<open>
  The callback of \<^verbatim>\<open>knex.transaction\<close> in \<^verbatim>\<open>updateOne\<close>. Inside
  \<^verbatim>\<open>alterTable\<close> the constraint is dropped first when the existing relation has a
  schema; that is all the callback asks before its first \<^verbatim>\<open>await\<close>. Then
  \<^verbatim>\<open>alterType\<close> is given the caller's \<^verbatim>\<open>relation\<close>, then the constraint is
  created again.
\<close>

definition updateOne_transaction ::
  "environment \<Rightarrow> RelationsService \<Rightarrow> string \<Rightarrow> string \<Rightarrow> partial_relation \<Rightarrow> relation \<Rightarrow> unit io" where
  "updateOne_transaction E S coll fld relation existingRelation =
     bind_io
       (if truthy (relation.related_collection existingRelation) then
          let constraintName0 = getDefaultIndexName E ''foreign'' coll fld;
              constraintName =
                (case relation.schema existingRelation of
                   None \<Rightarrow> constraintName0
                 | Some sc \<Rightarrow>
                     if truthy (constraint_name sc) then the (constraint_name sc)
                     else constraintName0);
              dropped =
                (case relation.schema existingRelation of
                   None \<Rightarrow> []
                 | Some sc \<Rightarrow> [DropForeign fld constraintName]);
              related = the (relation.related_collection existingRelation)
          in alterTable E coll dropped
               (case alterType S relation of
                  Inl e \<Rightarrow> Inl e
                | Inr ops \<Rightarrow>
                    (case getCollection (RelationsService.schema S) related of
                       None \<Rightarrow> Inl TypeError
                     | Some relatedOverview \<Rightarrow>
                         Inr (ops @
                              [Foreign fld (or_null (Some constraintName))
                                 (related @ ''.'' @ primary relatedOverview)
                                 (onDelete relation)])))
        else return_io ())
       (\<lambda>_. case partial_relation.meta relation of
               None \<Rightarrow> return_io ()
             | Some newMeta \<Rightarrow>
                 (case relation.meta existingRelation of
                    Some existingMeta \<Rightarrow> invoke E (ItemsUpdateOne (meta_id existingMeta) newMeta)
                  | None \<Rightarrow>
                      invoke E
                        (ItemsCreateOne
                           \<lparr>spread = Some newMeta,
                            row_many_collection = partial_relation.collection relation,
                            row_many_field = partial_relation.field relation,
                            row_one_collection =
                              or_null (relation.related_collection existingRelation)\<rparr>)))"

text \<open>The \<^verbatim>\<open>finally\<close> block of \<^verbatim>\<open>updateOne\<close> and of \<^verbatim>\<open>deleteOne\<close>.\<close>

definition field_cleanup :: "environment \<Rightarrow> bool \<Rightarrow> string \<Rightarrow> string \<Rightarrow> unit io" where
  "field_cleanup E runPostColumnChange coll fld =
     bind_io (if runPostColumnChange then invoke E PostColumnChange else return_io ())
       (\<lambda>_. invoke E (ClearRelationsForField coll fld))"

text \<open>The three checks that \<^verbatim>\<open>updateOne\<close> and \<^verbatim>\<open>deleteOne\<close> share, after the guard.\<close>

definition existing_relation ::
  "RelationsService \<Rightarrow> string \<Rightarrow> string \<Rightarrow> error + relation" where
  \<open>existing_relation S coll fld =
     (if \<not> hasCollection (RelationsService.schema S) coll
      then Inl (InvalidPayload (''Collection "'' @ coll @ ''" doesn't exist''))
      else if \<not> hasField (RelationsService.schema S) coll fld
      then Inl (InvalidPayload
             (''Field "'' @ fld @ ''" doesn't exist in collection "'' @ coll @ ''"''))
      else
        (case getRelationsForField (RelationsService.schema S) coll fld of
           None \<Rightarrow>
             Inl (InvalidPayload
               (''Field "'' @ fld @ ''" in collection "'' @ coll @ ''" doesn't have a relationship.''))
         | Some existingRelation \<Rightarrow> Inr existingRelation))\<close>

text \<open>\<^verbatim>\<open>updateOne(collection, field, relation)\<close>\<close>

definition updateOne ::
  "environment \<Rightarrow> RelationsService \<Rightarrow> string \<Rightarrow> string \<Rightarrow> partial_relation \<Rightarrow> unit io" where
  "updateOne E S coll fld relation =
     (if nonAdmin S then throw_io Forbidden
      else
        (case existing_relation S coll fld of
           Inl e \<Rightarrow> throw_io e
         | Inr existingRelation \<Rightarrow>
             bind_io (preColumnChange E S) (\<lambda>runPostColumnChange.
               try_finally
                 (transaction E (updateOne_transaction E S coll fld relation existingRelation))
                 (field_cleanup E runPostColumnChange coll fld))))"

text \<open>
  The callback of \<^verbatim>\<open>knex.transaction\<close> in \<^verbatim>\<open>deleteOne\<close>. The constraint names are
  those of \<^verbatim>\<open>schemaInspector.foreignKeys()\<close>, asked inside the callback.
\<close>

definition deleteOne_transaction ::
  "environment \<Rightarrow> RelationsService \<Rightarrow> string \<Rightarrow> string \<Rightarrow> relation \<Rightarrow> unit io" where
  "deleteOne_transaction E S coll fld existingRelation =
     bind_io (invoke E ForeignKeys) (\<lambda>_.
       let existingConstraints = schemaInspector S None;
           constraintNames = map constraint_name existingConstraints
       in bind_io
            (case relation.schema existingRelation of
               None \<Rightarrow> return_io ()
             | Some sc \<Rightarrow>
                 if truthy (constraint_name sc) \<and> array_includes constraintNames (constraint_name sc)
                 then invoke E
                        (AlterTable (relation.collection existingRelation)
                           [DropForeign (relation.field existingRelation) (the (constraint_name sc))])
                 else return_io ())
            (\<lambda>_. case relation.meta existingRelation of
                    None \<Rightarrow> return_io ()
                  | Some existingMeta \<Rightarrow> invoke E (DeleteRelations coll fld)))"

text \<open>\<^verbatim>\<open>deleteOne(collection, field)\<close>\<close>

definition deleteOne :: "environment \<Rightarrow> RelationsService \<Rightarrow> string \<Rightarrow> string \<Rightarrow> unit io" where
  "deleteOne E S coll fld =
     (if nonAdmin S then throw_io Forbidden
      else
        (case existing_relation S coll fld of
           Inl e \<Rightarrow> throw_io e
         | Inr existingRelation \<Rightarrow>
             bind_io (preColumnChange E S) (\<lambda>runPostColumnChange.
               try_finally
                 (transaction E (deleteOne_transaction E S coll fld existingRelation))
                 (field_cleanup E runPostColumnChange coll fld))))"


section \<open>The access filter in the words of the specification\<close>

text \<open>
  The conditions (a) to (e) of the specification, written independently of the code.
  A collection is read-allowed when some permission of the caller with action
  \<^verbatim>\<open>read\<close> names it; a field is allowed on a collection when the allow-list of that
  collection exists and holds the wildcard or the field. An optional name counts as
  present when it is neither missing nor the empty string.
\<close>

definition read_allowed :: "accountability \<Rightarrow> string \<Rightarrow> bool" where
  "read_allowed a c =
     (\<exists>p \<in> set (case permissions a of None \<Rightarrow> [] | Some ps \<Rightarrow> ps).
        action p = ''read'' \<and> permission.collection p = c)"

definition field_allowed :: "(string \<rightharpoonup> string list) \<Rightarrow> string \<Rightarrow> string \<Rightarrow> bool" where
  "field_allowed allowedFields c f =
     (case allowedFields c of None \<Rightarrow> False | Some fs \<Rightarrow> ''*'' \<in> set fs \<or> f \<in> set fs)"

definition survives :: "accountability \<Rightarrow> (string \<rightharpoonup> string list) \<Rightarrow> relation \<Rightarrow> bool" where
  "survives a allowedFields r =
     (read_allowed a (relation.collection r) \<and>
      (case relation.related_collection r of
         None \<Rightarrow> True
       | Some rc \<Rightarrow> rc \<noteq> [] \<longrightarrow> read_allowed a rc) \<and>
      (case relation.meta r of
         None \<Rightarrow> True
       | Some m \<Rightarrow>
           (case one_allowed_collections m of
              None \<Rightarrow> True
            | Some cs \<Rightarrow> \<forall>c \<in> set cs. read_allowed a c)) \<and>
      field_allowed allowedFields (relation.collection r) (relation.field r) \<and>
      (case relation.related_collection r of
         None \<Rightarrow> True
       | Some rc \<Rightarrow>
           (case relation.meta r of
              None \<Rightarrow> True
            | Some m \<Rightarrow>
                (case one_field m of
                   None \<Rightarrow> True
                 | Some f \<Rightarrow> rc \<noteq> [] \<and> f \<noteq> [] \<longrightarrow> field_allowed allowedFields rc f))))"

section \<open>The permission checks of \<open>readOne\<close> in the words of the specification\<close>

text \<open>
  The caller has base access when one of its permissions reads the relation-metadata
  collection. Its explicit read permission for a collection is the first of its
  permissions that reads that collection. The field-level check fails closed: it passes
  only when that record exists, has an allow-list, and the allow-list holds the wildcard or
  the field.
\<close>

definition has_base_read_access :: "accountability \<Rightarrow> bool" where
  "has_base_read_access a =
     (\<exists>p \<in> set (case permissions a of None \<Rightarrow> [] | Some ps \<Rightarrow> ps).
        permission.collection p = ''directus_relations'' \<and> action p = ''read'')"

definition read_permission_record :: "accountability \<Rightarrow> string \<Rightarrow> permission option" where
  "read_permission_record a coll =
     (case filter (\<lambda>p. action p = ''read'' \<and> permission.collection p = coll)
             (case permissions a of None \<Rightarrow> [] | Some ps \<Rightarrow> ps) of
        [] \<Rightarrow> None
      | p # _ \<Rightarrow> Some p)"

definition field_permitted :: "accountability \<Rightarrow> string \<Rightarrow> string \<Rightarrow> bool" where
  "field_permitted a coll fld =
     (case read_permission_record a coll of
        None \<Rightarrow> False
      | Some p \<Rightarrow>
          (case fields_of p of
             None \<Rightarrow> False
           | Some fs \<Rightarrow> ''*'' \<in> set fs \<or> fld \<in> set fs))"

section \<open>Relation stitching\<close>

text \<open>
  Modelled from the spec: \<^verbatim>\<open>stitchRelations\<close> of \<^verbatim>\<open>utils/stitch-relations.js\<close>,
  which this file's source imports and does not contain. A metadata row and a physical
  foreign key match on collection and field; schema attributes win for the related
  collection; a metadata row without a foreign key gives a descriptor without schema;
  the descriptors of the metadata rows come first, then the unmatched foreign keys.
  The operations take the stitcher from the environment; this one serves the examples.
\<close>

definition stitchRelations_spec :: "relation_meta list \<Rightarrow> foreign_key list \<Rightarrow> relation list" where
  "stitchRelations_spec metaRows schemaRows =
     map (\<lambda>m. case find (\<lambda>fk. table fk = many_collection m \<and> column fk = many_field m) schemaRows of
                 Some fk \<Rightarrow>
                   \<lparr>relation.collection = table fk, relation.field = column fk,
                    relation.related_collection = Some (foreign_key_table fk),
                    relation.schema = Some fk, relation.meta = Some m\<rparr>
               | None \<Rightarrow>
                   \<lparr>relation.collection = many_collection m, relation.field = many_field m,
                    relation.related_collection = one_collection m,
                    relation.schema = None, relation.meta = Some m\<rparr>) metaRows
     @ map (\<lambda>fk. \<lparr>relation.collection = table fk, relation.field = column fk,
                    relation.related_collection = Some (foreign_key_table fk),
                    relation.schema = Some fk, relation.meta = None\<rparr>)
         (filter (\<lambda>fk. find (\<lambda>m. many_collection m = table fk \<and> many_field m = column fk) metaRows = None)
            schemaRows)"

section \<open>Example data\<close>

text \<open>
  A small schema: articles, authors and comments. \<open>articles.author_id\<close> has a foreign
  key to authors and no metadata row; \<open>comments.article_id\<close> has a metadata row and a
  recorded constraint that the database no longer has.
\<close>

definition read_articles :: permission where
  "read_articles = \<lparr>action = ''read'', permission.collection = ''articles'', fields_of = Some [''*'']\<rparr>"

definition read_relations :: permission where
  "read_relations =
     \<lparr>action = ''read'', permission.collection = ''directus_relations'', fields_of = Some [''*'']\<rparr>"

definition read_article_titles :: permission where
  "read_article_titles =
     \<lparr>action = ''read'', permission.collection = ''articles'', fields_of = Some [''title'']\<rparr>"

definition read_authors :: permission where
  "read_authors = \<lparr>action = ''read'', permission.collection = ''authors'', fields_of = Some [''name'']\<rparr>"

definition read_comments_unlisted :: permission where
  "read_comments_unlisted =
     \<lparr>action = ''read'', permission.collection = ''comments'', fields_of = None\<rparr>"

definition editor :: accountability where
  "editor = \<lparr>admin = False, permissions = Some [read_articles]\<rparr>"

definition reader :: accountability where
  "reader = \<lparr>admin = False, permissions = Some [read_relations, read_article_titles]\<rparr>"

definition auditor :: accountability where
  "auditor = \<lparr>admin = False, permissions = Some [read_relations, read_comments_unlisted]\<rparr>"

definition librarian :: accountability where
  "librarian = \<lparr>admin = False, permissions = Some [read_relations, read_articles, read_authors]\<rparr>"

definition administrator :: accountability where
  "administrator = \<lparr>admin = True, permissions = None\<rparr>"

definition editor_fields :: "string \<rightharpoonup> string list" where
  "editor_fields = [''articles'' \<mapsto> [''*'']]"

definition author_fk :: foreign_key where
  "author_fk = \<lparr>table = ''articles'', column = ''author_id'', foreign_key_table = ''authors'',
     constraint_name = Some ''articles_author_id_foreign'', on_delete = None\<rparr>"

definition article_author :: relation where
  "article_author = \<lparr>relation.collection = ''articles'', relation.field = ''author_id'',
     relation.related_collection = Some ''authors'', relation.schema = Some author_fk,
     relation.meta = None\<rparr>"

definition article_title :: relation where
  "article_title = \<lparr>relation.collection = ''articles'', relation.field = ''title'',
     relation.related_collection = None, relation.schema = None, relation.meta = None\<rparr>"

definition comment_fk :: foreign_key where
  "comment_fk = \<lparr>table = ''comments'', column = ''article_id'', foreign_key_table = ''articles'',
     constraint_name = Some ''comments_article_id_foreign'', on_delete = None\<rparr>"

definition comment_meta :: relation_meta where
  "comment_meta = \<lparr>meta_id = 7, many_collection = ''comments'', many_field = ''article_id'',
     one_collection = Some ''articles'', one_field = Some ''comments'',
     one_allowed_collections = None\<rparr>"

definition comment_article :: relation where
  "comment_article = \<lparr>relation.collection = ''comments'', relation.field = ''article_id'',
     relation.related_collection = Some ''articles'', relation.schema = Some comment_fk,
     relation.meta = Some comment_meta\<rparr>"

definition blog_relations :: "relation list" where
  "blog_relations = [article_author, comment_article]"

definition blog_collections :: "string \<rightharpoonup> collection_overview" where
  "blog_collections =
     [''articles'' \<mapsto> \<lparr>primary = ''id''\<rparr>, ''authors'' \<mapsto> \<lparr>primary = ''id''\<rparr>,
      ''comments'' \<mapsto> \<lparr>primary = ''id''\<rparr>]"

definition blog_fields :: "string \<Rightarrow> (string \<rightharpoonup> field_overview)" where
  "blog_fields c =
     (if c = ''articles'' then
        [''id'' \<mapsto> \<lparr>dbType = Some ''int unsigned''\<rparr>, ''title'' \<mapsto> \<lparr>dbType = Some ''varchar''\<rparr>,
         ''author_id'' \<mapsto> \<lparr>dbType = Some ''int''\<rparr>, ''editor_id'' \<mapsto> \<lparr>dbType = Some ''int''\<rparr>]
      else if c = ''authors'' then
        [''id'' \<mapsto> \<lparr>dbType = Some ''int unsigned''\<rparr>, ''name'' \<mapsto> \<lparr>dbType = Some ''varchar''\<rparr>]
      else if c = ''comments'' then
        [''id'' \<mapsto> \<lparr>dbType = Some ''int unsigned''\<rparr>, ''article_id'' \<mapsto> \<lparr>dbType = Some ''int unsigned''\<rparr>,
         ''body'' \<mapsto> \<lparr>dbType = Some ''text''\<rparr>]
      else Map.empty)"

definition blog_schema :: schema_overview where
  "blog_schema =
     \<lparr>getCollections = blog_collections,
      getFields = blog_fields,
      getRelationsForCollection =
        (\<lambda>c. map (\<lambda>r. (relation.field r, r)) (filter (\<lambda>r. relation.collection r = c) blog_relations)),
      hasCollection = (\<lambda>c. blog_collections c \<noteq> None),
      hasField = (\<lambda>c f. blog_fields c f \<noteq> None),
      getRelationsForField =
        (\<lambda>c f. find (\<lambda>r. relation.collection r = c \<and> relation.field r = f) blog_relations),
      getCollection = blog_collections,
      getField =
        (\<lambda>c f. case c of None \<Rightarrow> None
                | Some c' \<Rightarrow> (case f of None \<Rightarrow> None | Some f' \<Rightarrow> blog_fields c' f')),
      getPrimaryKeyField =
        (\<lambda>c. case c of None \<Rightarrow> None
              | Some c' \<Rightarrow>
                  (case blog_collections c' of
                     None \<Rightarrow> None
                   | Some overview \<Rightarrow> blog_fields c' (primary overview)))\<rparr>"

definition blog_service :: "accountability option \<Rightarrow> RelationsService" where
  "blog_service acc =
     \<lparr>accountability = acc,
      RelationsService.schema = blog_schema,
      schemaInspector =
        (\<lambda>c. case c of None \<Rightarrow> [author_fk] | Some c' \<Rightarrow> filter (\<lambda>fk. table fk = c') [author_fk]),
      permissionsService = (\<lambda>act. if act = ''read'' then editor_fields else Map.empty),
      relationsItemService =
        (\<lambda>q. filter (\<lambda>m. list_all (\<lambda>(k, v). if k = ''many_collection'' then many_collection m = v
                                            else if k = ''many_field'' then many_field m = v
                                            else True) (filter_eq q))
               [comment_meta]),
      helpers = True\<rparr>"

definition blog_env :: environment where
  "blog_env =
     \<lparr>stitchRelations = stitchRelations_spec,
      systemRelationRows = [],
      getDefaultIndexName = (\<lambda>kind c f. c @ ''_'' @ f @ ''_'' @ kind),
      raises = (\<lambda>c. None),
      awaits_callback = True\<rparr>"

text \<open>The same environment with a table builder that does not wait for the callback.\<close>

definition unawaited_env :: environment where
  "unawaited_env = blog_env\<lparr>awaits_callback := False\<rparr>"

text \<open>The relation a caller asks to create or gives as a patch, without schema and metadata.\<close>

definition new_relation :: "string option \<Rightarrow> string option \<Rightarrow> string option \<Rightarrow> partial_relation" where
  "new_relation c f rc =
     \<lparr>partial_relation.collection = c, partial_relation.field = f,
      partial_relation.related_collection = rc,
      partial_relation.schema = None, partial_relation.meta = None\<rparr>"


text \<open>
  Patches for the relation on \<open>articles.author_id\<close>: one that names the relation it
  is sent for, one that carries metadata only, and one whose own collection and field name
  another column.
\<close>

definition author_meta :: relation_meta where
  "author_meta = \<lparr>meta_id = 0, many_collection = ''articles'', many_field = ''author_id'',
     one_collection = Some ''authors'', one_field = None, one_allowed_collections = None\<rparr>"


definition meta_patch :: partial_relation where
  "meta_patch =
     \<lparr>partial_relation.collection = None, partial_relation.field = None,
      partial_relation.related_collection = None,
      partial_relation.schema = None, partial_relation.meta = Some author_meta\<rparr>"

definition editor_patch :: partial_relation where
  "editor_patch =
     \<lparr>partial_relation.collection = Some ''articles'', partial_relation.field = Some ''editor_id'',
      partial_relation.related_collection = Some ''authors'',
      partial_relation.schema = None, partial_relation.meta = Some author_meta\<rparr>"

text \<open>An environment whose database rejects every alteration of a table.\<close>

definition rigid_env :: environment where
  "rigid_env =
     blog_env\<lparr>raises :=
       (\<lambda>c. case c of AlterTable t ops \<Rightarrow> Some ''constraint does not exist'' | _ \<Rightarrow> None)\<rparr>"


section \<open>The example data, attribute by attribute\<close>

lemma blog_service_sel:
  "accountability (blog_service acc) = acc"
  "RelationsService.schema (blog_service acc) = blog_schema"
  "schemaInspector (blog_service acc) None = [author_fk]"
  "schemaInspector (blog_service acc) (Some c) = filter (\<lambda>fk. table fk = c) [author_fk]"
  "permissionsService (blog_service acc) ''read'' = editor_fields"
  "relationsItemService (blog_service acc) q =
     filter (\<lambda>m. list_all (\<lambda>(k, v). if k = ''many_collection'' then many_collection m = v
                                     else if k = ''many_field'' then many_field m = v
                                     else True) (filter_eq q))
       [comment_meta]"
  "helpers (blog_service acc) = True"
  by (simp_all add: blog_service_def)

lemma blog_env_sel:
  "stitchRelations blog_env = stitchRelations_spec"
  "systemRelationRows blog_env = []"
  "getDefaultIndexName blog_env kind c f = c @ ''_'' @ f @ ''_'' @ kind"
  "raises blog_env x = None"
  "awaits_callback blog_env = True"
  by (simp_all add: blog_env_def)

lemma unawaited_env_sel:
  "stitchRelations unawaited_env = stitchRelations_spec"
  "systemRelationRows unawaited_env = []"
  "getDefaultIndexName unawaited_env kind c f = c @ ''_'' @ f @ ''_'' @ kind"
  "raises unawaited_env x = None"
  "awaits_callback unawaited_env = False"
  by (simp_all add: unawaited_env_def blog_env_def)

lemma blog_schema_sel:
  "getCollections blog_schema = blog_collections"
  "getFields blog_schema = blog_fields"
  "getRelationsForCollection blog_schema c =
     map (\<lambda>r. (relation.field r, r)) (filter (\<lambda>r. relation.collection r = c) blog_relations)"
  "hasCollection blog_schema c = (blog_collections c \<noteq> None)"
  "hasField blog_schema c f = (blog_fields c f \<noteq> None)"
  "getRelationsForField blog_schema c f =
     find (\<lambda>r. relation.collection r = c \<and> relation.field r = f) blog_relations"
  "getCollection blog_schema = blog_collections"
  "getField blog_schema (Some c) (Some f) = blog_fields c f"
  "getField blog_schema None y = None"
  "getField blog_schema x None = None"
  "getPrimaryKeyField blog_schema None = None"
  "getPrimaryKeyField blog_schema (Some c) =
     (case blog_collections c of None \<Rightarrow> None | Some overview \<Rightarrow> blog_fields c (primary overview))"
  by (simp_all add: blog_schema_def split: option.splits)

section \<open>Properties of the access filter\<close>

lemma allowedCollections_read_allowed:
  "(c \<in> set (allowedCollections a)) = read_allowed a c"
  by (auto simp: allowedCollections_def read_allowed_def split: option.splits)

lemma relationAllowed_survives:
  "relationAllowed (allowedCollections a) allowedFields r = survives a allowedFields r"
  unfolding relationAllowed_def survives_def Let_def array_includes_def
  by (auto simp: allowedCollections_read_allowed field_allowed_def truthy_def list_all_iff
           split: option.splits)

text \<open>
  C1. Under an accountability that is present and not administrative, \<open>filterForbidden\<close>
  keeps exactly the relations that meet all five conditions: the owning collection is
  read-allowed; the related collection, when present, is read-allowed; every collection of
  \<^verbatim>\<open>meta.one_allowed_collections\<close>, when that list is present, is read-allowed; the
  relation's field is allowed on the owning collection, explicitly or by the wildcard; and,
  when a reverse field \<^verbatim>\<open>meta.one_field\<close> is declared, it is allowed on the related
  collection. Present and declared are as the code tests them: neither missing nor the
  empty string; the last condition is about the related collection, so it asks nothing of
  a relation that has none. The result is the input list with the failing relations left
  out, so every descriptor returned is a whole descriptor of the input.
\<close>

theorem filterForbidden_keeps_iff:
  assumes "\<not> admin a"
  shows "filterForbidden (Some a) allowedFields relations = filter (survives a allowedFields) relations
         \<and> (r \<in> set (filterForbidden (Some a) allowedFields relations) \<longleftrightarrow>
              r \<in> set relations \<and> survives a allowedFields r)"
proof -
  have "relationAllowed (allowedCollections a) allowedFields = survives a allowedFields"
    by (rule ext) (rule relationAllowed_survives)
  with assms show ?thesis by (simp add: filterForbidden_def)
qed

theorem filterForbidden_keeps_iff_witness:
  "\<not> admin editor \<and>
   filterForbidden (Some editor) editor_fields [article_author, article_title] = [article_title] \<and>
   survives editor editor_fields article_title \<and>
   \<not> survives editor editor_fields article_author"
proof -
  have h: "\<not> admin editor" by (simp add: editor_def)
  have s1: "survives editor editor_fields article_title"
    by (simp add: survives_def read_allowed_def field_allowed_def editor_def read_articles_def
                  editor_fields_def article_title_def)
  have s2: "\<not> survives editor editor_fields article_author"
    by (simp add: survives_def read_allowed_def field_allowed_def editor_def read_articles_def
                  editor_fields_def article_author_def)
  from filterForbidden_keeps_iff [OF h, of editor_fields "[article_author, article_title]"] s1 s2 h
  show ?thesis by simp
qed

text \<open>
  C8. When the accountability is absent or administrative, \<open>filterForbidden\<close> returns
  its input list as it is.
\<close>

theorem filterForbidden_passthrough:
  "acc = None \<or> (\<exists>a. acc = Some a \<and> admin a) \<Longrightarrow>
   filterForbidden acc allowedFields relations = relations"
  by (auto simp: filterForbidden_def)

theorem filterForbidden_passthrough_witness:
  "filterForbidden None Map.empty [article_author, article_title] = [article_author, article_title] \<and>
   filterForbidden (Some administrator) Map.empty [article_author, article_title]
     = [article_author, article_title]"
proof -
  have "\<exists>a. Some administrator = Some a \<and> admin a" by (simp add: administrator_def)
  then show ?thesis
    using filterForbidden_passthrough [of None Map.empty "[article_author, article_title]"]
          filterForbidden_passthrough [of "Some administrator" Map.empty "[article_author, article_title]"]
    by simp
qed

text \<open>
  C9. Filtering is idempotent: filtering a list that \<open>filterForbidden\<close> produced, under
  the same accountability and the same allowed fields, returns that list.
\<close>

theorem filterForbidden_idempotent:
  "filterForbidden acc allowedFields (filterForbidden acc allowedFields relations)
     = filterForbidden acc allowedFields relations"
  by (simp add: filterForbidden_def split: option.splits)


section \<open>Properties of the reading operations\<close>

lemma find_None_forall: "(find P xs = None) = (\<forall>x \<in> set xs. \<not> P x)"
  by (induction xs) auto

lemma readOne_check_cases:
  "readOne_check S coll fld = Inr () \<or> readOne_check S coll fld = Inl Forbidden"
  by (simp add: readOne_check_def split: option.splits)

lemma find_filter: "find P xs = (case filter P xs of [] \<Rightarrow> None | x # _ \<Rightarrow> Some x)"
  by (induction xs) auto

lemma hasReadAccess_base:
  "accountability S = Some a \<Longrightarrow> hasReadAccess S = has_base_read_access a"
  by (auto simp: hasReadAccess_def has_base_read_access_def find_None_forall split: option.splits)

lemma readOne_check_permitted:
  assumes "accountability S = Some a" and "\<not> admin a"
  shows "readOne_check S coll fld =
           (if has_base_read_access a \<and> field_permitted a coll fld then Inr () else Inl Forbidden)"
proof -
  have rec: "(case permissions a of
                None \<Rightarrow> None
              | Some ps \<Rightarrow> find (\<lambda>p. action p = ''read'' \<and> permission.collection p = coll) ps)
             = read_permission_record a coll"
    by (simp add: read_permission_record_def find_filter split: option.splits)
  show ?thesis
    using assms hasReadAccess_base [OF assms(1)]
    by (simp add: readOne_check_def rec field_permitted_def array_includes_def
             split: option.splits)
qed

text \<open>
  C3. For a caller whose accountability is present and not administrative, \<open>readOne\<close>
  raises Forbidden when the caller has no read permission on the relation-metadata
  collection, when the caller has no read permission record for the given collection, when
  the record found for the collection has no allow-list, and when its allow-list holds
  neither the wildcard nor the field. When the stitched and filtered list is empty,
  \<open>readOne\<close> raises Forbidden. These are all the cases: the outcome is the first
  descriptor of the filtered list exactly when the caller has base access, the field-level
  check passes and the list is not empty, and Forbidden otherwise, so a relation that does
  not exist and a relation out of reach give the same outcome. The reads of the database
  are taken by their answers; an error of theirs is outside this statement.
\<close>

theorem readOne_forbidden:
  assumes "accountability S = Some a" and "\<not> admin a"
  shows "(\<not> hasReadAccess S \<longrightarrow> readOne E S coll fld = Inl Forbidden) \<and>
         (\<not> has_base_read_access a \<longrightarrow> readOne E S coll fld = Inl Forbidden) \<and>
         ((\<forall>p \<in> set (case permissions a of None \<Rightarrow> [] | Some ps \<Rightarrow> ps).
             \<not> (action p = ''read'' \<and> permission.collection p = coll))
            \<longrightarrow> readOne E S coll fld = Inl Forbidden) \<and>
         ((\<exists>ps p. permissions a = Some ps \<and>
               find (\<lambda>p. action p = ''read'' \<and> permission.collection p = coll) ps = Some p \<and>
               fields_of p = None)
            \<longrightarrow> readOne E S coll fld = Inl Forbidden) \<and>
         ((\<exists>ps p fs. permissions a = Some ps \<and>
               find (\<lambda>p. action p = ''read'' \<and> permission.collection p = coll) ps = Some p \<and>
               fields_of p = Some fs \<and> ''*'' \<notin> set fs \<and> fld \<notin> set fs)
            \<longrightarrow> readOne E S coll fld = Inl Forbidden) \<and>
         (filterForbidden (accountability S) (permissionsService S ''read'')
              (readOne_stitched E S coll fld) = []
            \<longrightarrow> readOne E S coll fld = Inl Forbidden) \<and>
         readOne E S coll fld =
           (if has_base_read_access a \<and> field_permitted a coll fld
            then (case filterForbidden (accountability S) (permissionsService S ''read'')
                         (readOne_stitched E S coll fld) of
                    [] \<Rightarrow> Inl Forbidden
                  | first # _ \<Rightarrow> Inr first)
            else Inl Forbidden)"
proof -
  note check = readOne_check_permitted [OF assms, of coll fld]
  have all: "readOne E S coll fld =
           (if has_base_read_access a \<and> field_permitted a coll fld
            then (case filterForbidden (accountability S) (permissionsService S ''read'')
                         (readOne_stitched E S coll fld) of
                    [] \<Rightarrow> Inl Forbidden
                  | first # _ \<Rightarrow> Inr first)
            else Inl Forbidden)"
    by (simp add: readOne_def check)
  have base: "\<not> has_base_read_access a \<longrightarrow> readOne E S coll fld = Inl Forbidden"
    by (simp add: all)
  have base': "\<not> hasReadAccess S \<longrightarrow> readOne E S coll fld = Inl Forbidden"
    using base by (simp add: hasReadAccess_base [OF assms(1)])
  have none: "(\<forall>p \<in> set (case permissions a of None \<Rightarrow> [] | Some ps \<Rightarrow> ps).
             \<not> (action p = ''read'' \<and> permission.collection p = coll))
            \<longrightarrow> readOne E S coll fld = Inl Forbidden"
  proof
    assume "\<forall>p \<in> set (case permissions a of None \<Rightarrow> [] | Some ps \<Rightarrow> ps).
             \<not> (action p = ''read'' \<and> permission.collection p = coll)"
    then have "filter (\<lambda>p. action p = ''read'' \<and> permission.collection p = coll)
                 (case permissions a of None \<Rightarrow> [] | Some ps \<Rightarrow> ps) = []"
      by (simp add: filter_empty_conv)
    then have "\<not> field_permitted a coll fld"
      by (simp add: field_permitted_def read_permission_record_def)
    then show "readOne E S coll fld = Inl Forbidden" by (simp add: all)
  qed
  have found: "read_permission_record a coll = Some p"
    if "permissions a = Some ps"
      and "find (\<lambda>p. action p = ''read'' \<and> permission.collection p = coll) ps = Some p" for ps p
    using that by (simp add: read_permission_record_def find_filter split: list.splits)
  have unlisted: "(\<exists>ps p. permissions a = Some ps \<and>
               find (\<lambda>p. action p = ''read'' \<and> permission.collection p = coll) ps = Some p \<and>
               fields_of p = None)
            \<longrightarrow> readOne E S coll fld = Inl Forbidden"
  proof
    assume "\<exists>ps p. permissions a = Some ps \<and>
               find (\<lambda>p. action p = ''read'' \<and> permission.collection p = coll) ps = Some p \<and>
               fields_of p = None"
    then obtain ps p where "permissions a = Some ps"
      and "find (\<lambda>p. action p = ''read'' \<and> permission.collection p = coll) ps = Some p"
      and "fields_of p = None"
      by blast
    then have "\<not> field_permitted a coll fld"
      using found [of ps p] by (simp add: field_permitted_def)
    then show "readOne E S coll fld = Inl Forbidden" by (simp add: all)
  qed
  have outside: "(\<exists>ps p fs. permissions a = Some ps \<and>
               find (\<lambda>p. action p = ''read'' \<and> permission.collection p = coll) ps = Some p \<and>
               fields_of p = Some fs \<and> ''*'' \<notin> set fs \<and> fld \<notin> set fs)
            \<longrightarrow> readOne E S coll fld = Inl Forbidden"
  proof
    assume "\<exists>ps p fs. permissions a = Some ps \<and>
               find (\<lambda>p. action p = ''read'' \<and> permission.collection p = coll) ps = Some p \<and>
               fields_of p = Some fs \<and> ''*'' \<notin> set fs \<and> fld \<notin> set fs"
    then obtain ps p fs where "permissions a = Some ps"
      and "find (\<lambda>p. action p = ''read'' \<and> permission.collection p = coll) ps = Some p"
      and "fields_of p = Some fs" and "''*'' \<notin> set fs" and "fld \<notin> set fs"
      by blast
    then have "\<not> field_permitted a coll fld"
      using found [of ps p] by (simp add: field_permitted_def)
    then show "readOne E S coll fld = Inl Forbidden" by (simp add: all)
  qed
  have empty: "filterForbidden (accountability S) (permissionsService S ''read'')
              (readOne_stitched E S coll fld) = []
            \<longrightarrow> readOne E S coll fld = Inl Forbidden"
    by (simp add: all)
  from base' base none unlisted outside empty all show ?thesis by blast
qed

theorem readOne_forbidden_witness:
  "accountability (blog_service (Some reader)) = Some reader \<and> \<not> admin reader \<and>
   hasReadAccess (blog_service (Some reader)) \<and>
   \<not> hasReadAccess (blog_service (Some editor)) \<and>
   readOne blog_env (blog_service (Some editor)) ''articles'' ''title'' = Inl Forbidden \<and>
   readOne blog_env (blog_service (Some reader)) ''authors'' ''name'' = Inl Forbidden \<and>
   readOne blog_env (blog_service (Some reader)) ''articles'' ''author_id'' = Inl Forbidden \<and>
   readOne_check (blog_service (Some reader)) ''articles'' ''title'' = Inr () \<and>
   readOne blog_env (blog_service (Some reader)) ''articles'' ''title'' = Inl Forbidden \<and>
   has_base_read_access auditor \<and>
   read_permission_record auditor ''comments'' = Some read_comments_unlisted \<and>
   fields_of read_comments_unlisted = None \<and>
   readOne blog_env (blog_service (Some auditor)) ''comments'' ''article_id'' = Inl Forbidden \<and>
   has_base_read_access librarian \<and> field_permitted librarian ''articles'' ''author_id'' \<and>
   readOne blog_env (blog_service (Some librarian)) ''articles'' ''author_id'' = Inr article_author"
proof -
  let ?R = "blog_service (Some reader)" and ?D = "blog_service (Some editor)"
  let ?A = "blog_service (Some auditor)" and ?L = "blog_service (Some librarian)"
  have a1: "accountability ?R = Some reader" and b1: "accountability ?D = Some editor"
    and d1: "accountability ?A = Some auditor" and l1: "accountability ?L = Some librarian"
    by (simp_all add: blog_service_sel)
  have a2: "\<not> admin reader" and b2: "\<not> admin editor" and d2: "\<not> admin auditor"
    and l2: "\<not> admin librarian"
    by (simp_all add: reader_def editor_def auditor_def librarian_def)
  have r: "hasReadAccess ?R"
    by (simp add: hasReadAccess_def blog_service_sel reader_def read_relations_def)
  have e: "\<not> hasReadAccess ?D"
    by (simp add: hasReadAccess_def blog_service_sel editor_def read_articles_def)
  note fb = readOne_forbidden [OF a1 a2, of blog_env]
  have c1: "readOne blog_env ?D ''articles'' ''title'' = Inl Forbidden"
    using readOne_forbidden [OF b1 b2, of blog_env "''articles''" "''title''"] e by blast
  have "\<forall>p \<in> set (case permissions reader of None \<Rightarrow> [] | Some ps \<Rightarrow> ps).
          \<not> (action p = ''read'' \<and> permission.collection p = ''authors'')"
    by (simp add: reader_def read_relations_def read_article_titles_def)
  with fb [of "''authors''" "''name''"]
  have c2: "readOne blog_env ?R ''authors'' ''name'' = Inl Forbidden"
    by blast
  have "permissions reader = Some [read_relations, read_article_titles] \<and>
        find (\<lambda>p. action p = ''read'' \<and> permission.collection p = ''articles'')
          [read_relations, read_article_titles] = Some read_article_titles \<and>
        fields_of read_article_titles = Some [''title''] \<and>
        ''*'' \<notin> set [''title''] \<and> ''author_id'' \<notin> set [''title'']"
    by (simp add: reader_def read_relations_def read_article_titles_def)
  with fb [of "''articles''" "''author_id''"]
  have c3: "readOne blog_env ?R ''articles'' ''author_id'' = Inl Forbidden"
    by blast
  have k: "readOne_check ?R ''articles'' ''title'' = Inr ()"
    using r by (simp add: readOne_check_def blog_service_sel reader_def read_relations_def
                          read_article_titles_def array_includes_def)
  have st: "readOne_stitched blog_env ?R ''articles'' ''title'' = []"
    by (simp add: readOne_stitched_def blog_service_sel blog_env_sel stitchRelations_spec_def
                  author_fk_def comment_meta_def)
  have "filterForbidden (accountability ?R) (permissionsService ?R ''read'')
          (readOne_stitched blog_env ?R ''articles'' ''title'') = []"
    unfolding st by (simp add: filterForbidden_def blog_service_sel reader_def)
  with fb [of "''articles''" "''title''"]
  have c4: "readOne blog_env ?R ''articles'' ''title'' = Inl Forbidden"
    by blast
  have ab: "has_base_read_access auditor"
    by (simp add: has_base_read_access_def auditor_def read_relations_def)
  have ar: "read_permission_record auditor ''comments'' = Some read_comments_unlisted"
    by (simp add: read_permission_record_def auditor_def read_relations_def
                  read_comments_unlisted_def)
  have af: "fields_of read_comments_unlisted = None"
    by (simp add: read_comments_unlisted_def)
  have "permissions auditor = Some [read_relations, read_comments_unlisted] \<and>
        find (\<lambda>p. action p = ''read'' \<and> permission.collection p = ''comments'')
          [read_relations, read_comments_unlisted] = Some read_comments_unlisted \<and>
        fields_of read_comments_unlisted = None"
    by (simp add: auditor_def read_relations_def read_comments_unlisted_def)
  with readOne_forbidden [OF d1 d2, of blog_env "''comments''" "''article_id''"]
  have c5: "readOne blog_env ?A ''comments'' ''article_id'' = Inl Forbidden"
    by blast
  have lb: "has_base_read_access librarian"
    by (simp add: has_base_read_access_def librarian_def read_relations_def)
  have lf: "field_permitted librarian ''articles'' ''author_id''"
    by (simp add: field_permitted_def read_permission_record_def librarian_def read_relations_def
                  read_articles_def read_authors_def)
  have ls: "readOne_stitched blog_env ?L ''articles'' ''author_id'' = [article_author]"
    by (simp add: readOne_stitched_def blog_service_sel blog_env_sel stitchRelations_spec_def
                  author_fk_def comment_meta_def article_author_def)
  have lk: "filterForbidden (accountability ?L) (permissionsService ?L ''read'') [article_author]
              = [article_author]"
    by (simp add: filterForbidden_def blog_service_sel librarian_def relationAllowed_def
                  allowedCollections_def array_includes_def truthy_def editor_fields_def
                  read_relations_def read_articles_def read_authors_def article_author_def)
  have c6: "readOne blog_env ?L ''articles'' ''author_id'' = Inr article_author"
    using readOne_forbidden [OF l1 l2, of blog_env "''articles''" "''author_id''"] lb lf
    by (simp add: ls lk)
  from a1 a2 r e c1 c2 c3 k c4 ab ar af c5 lb lf c6 show ?thesis by blast
qed

section \<open>The type-compatibility fix\<close>

text \<open>
  What \<open>alterType\<close> asks for, on the relation it is given: when the snapshot has that
  relation's field and the primary key of its related collection, the field is to become
  \<^verbatim>\<open>int unsigned\<close> exactly when its database type is \<^verbatim>\<open>int\<close> and the primary
  key's is \<^verbatim>\<open>int unsigned\<close>. \<open>createOne\<close> gives it the relation being created;
  when the table builder waits for the callback, that request reaches the database with
  the new constraint.
\<close>

lemma alterType_exactly:
  assumes "getField (RelationsService.schema S)
             (partial_relation.collection r) (partial_relation.field r) = Some owning"
      and "getPrimaryKeyField (RelationsService.schema S)
             (partial_relation.related_collection r) = Some relatedKey"
  shows "alterType S r =
           Inr (if dbType owning = Some ''int'' \<and> dbType relatedKey = Some ''int unsigned''
                then [SpecificTypeAlter (partial_relation.field r) ''int unsigned'']
                else [])"
  using assms by (auto simp: alterType_def Let_def)

lemma createOne_applies_type_fix:
  assumes "awaits_callback E"
      and "truthy (partial_relation.related_collection r)"
      and "getField (RelationsService.schema S)
             (partial_relation.collection r) (partial_relation.field r) = Some owning"
      and "getPrimaryKeyField (RelationsService.schema S)
             (partial_relation.related_collection r) = Some relatedKey"
      and "getCollections (RelationsService.schema S)
             (the (partial_relation.related_collection r)) = Some relatedOverview"
  shows "createOne_transaction E S r =
           bind_io
             (invoke E
                (AlterTable (the (partial_relation.collection r))
                   ((if dbType owning = Some ''int'' \<and> dbType relatedKey = Some ''int unsigned''
                     then [SpecificTypeAlter (partial_relation.field r) ''int unsigned'']
                     else []) @
                    [Foreign (the (partial_relation.field r))
                       (Some (getDefaultIndexName E ''foreign''
                                (the (partial_relation.collection r)) (the (partial_relation.field r))))
                       (the (partial_relation.related_collection r) @ ''.'' @ primary relatedOverview)
                       (onDelete r)])))
             (\<lambda>_. invoke E
                    (ItemsCreateOne
                       \<lparr>spread = partial_relation.meta r,
                        row_many_collection = partial_relation.collection r,
                        row_many_field = partial_relation.field r,
                        row_one_collection = or_null (partial_relation.related_collection r)\<rparr>))"
  using assms(1,2,5)
  by (simp add: createOne_transaction_def alterTable_def alterType_exactly [OF assms(3,4)] Let_def)

section \<open>Which errors the operations raise\<close>

lemma invoke_not_forbidden: "fst (invoke E c) \<noteq> Inl Forbidden"
  by (simp add: invoke_def split: option.splits)

lemma bind_io_not_forbidden:
  assumes "fst m \<noteq> Inl Forbidden" and "\<And>x. fst (f x) \<noteq> Inl Forbidden"
  shows "fst (bind_io m f) \<noteq> Inl Forbidden"
proof (cases m)
  case (Pair r l)
  show ?thesis
  proof (cases r)
    case (Inl e)
    with Pair assms(1) show ?thesis by (simp add: bind_io_def)
  next
    case (Inr x)
    with Pair assms(2) [of x] show ?thesis
      by (cases "f x") (simp add: bind_io_def)
  qed
qed

lemma transaction_not_forbidden:
  assumes "fst body \<noteq> Inl Forbidden"
  shows "fst (transaction E body) \<noteq> Inl Forbidden"
  unfolding transaction_def
proof (rule bind_io_not_forbidden [OF invoke_not_forbidden])
  fix x :: unit
  show "fst (case body of (Inl e, l) \<Rightarrow> (Inl e, l @ [Rollback])
             | (Inr _, l) \<Rightarrow> bind_io (Inr (), l) (\<lambda>_. invoke E Commit)) \<noteq> Inl Forbidden"
  proof (cases body)
    case (Pair r l)
    show ?thesis
    proof (cases r)
      case (Inl e)
      with Pair assms show ?thesis by simp
    next
      case (Inr u)
      with Pair show ?thesis
        by (simp add: bind_io_not_forbidden invoke_not_forbidden)
    qed
  qed
qed

lemma try_finally_not_forbidden:
  assumes "fst body \<noteq> Inl Forbidden" and "fst cleanup \<noteq> Inl Forbidden"
  shows "fst (try_finally body cleanup) \<noteq> Inl Forbidden"
  using assms by (auto simp: try_finally_def split: prod.splits sum.splits)

lemma preColumnChange_not_forbidden: "fst (preColumnChange E S) \<noteq> Inl Forbidden"
  by (simp add: preColumnChange_def bind_io_not_forbidden invoke_not_forbidden return_io_def)

lemma createOne_cleanup_not_forbidden: "fst (createOne_cleanup E b r) \<noteq> Inl Forbidden"
  by (simp add: createOne_cleanup_def bind_io_not_forbidden invoke_not_forbidden return_io_def)

lemma field_cleanup_not_forbidden: "fst (field_cleanup E b c f) \<noteq> Inl Forbidden"
  by (simp add: field_cleanup_def bind_io_not_forbidden invoke_not_forbidden return_io_def)

lemma alterType_not_forbidden: "alterType S r \<noteq> Inl Forbidden"
  by (simp add: alterType_def Let_def split: option.splits)

lemma alterTable_not_forbidden:
  "asked_later \<noteq> Inl Forbidden \<Longrightarrow> fst (alterTable E c asked_first asked_later) \<noteq> Inl Forbidden"
  by (cases asked_later) (simp_all add: alterTable_def throw_io_def invoke_not_forbidden)

lemma createOne_transaction_not_forbidden: "fst (createOne_transaction E S r) \<noteq> Inl Forbidden"
proof -
  have later: "(case alterType S r of
                  Inl e \<Rightarrow> Inl e
                | Inr ops \<Rightarrow> (case m of None \<Rightarrow> Inl TypeError | Some v \<Rightarrow> Inr (g ops v)))
               \<noteq> Inl Forbidden" for m :: "collection_overview option" and g :: "table_op list \<Rightarrow> collection_overview \<Rightarrow> table_op list"
    using alterType_not_forbidden [of S r] by (auto split: sum.splits option.splits)
  show ?thesis
    unfolding createOne_transaction_def Let_def
    by (rule bind_io_not_forbidden)
       (simp_all add: return_io_def invoke_not_forbidden alterTable_not_forbidden later)
qed

lemma updateOne_transaction_not_forbidden:
  "fst (updateOne_transaction E S c f r x) \<noteq> Inl Forbidden"
proof -
  have later: "(case alterType S r of
                  Inl e \<Rightarrow> Inl e
                | Inr ops \<Rightarrow> (case m of None \<Rightarrow> Inl TypeError | Some v \<Rightarrow> Inr (g ops v)))
               \<noteq> Inl Forbidden" for m :: "collection_overview option" and g :: "table_op list \<Rightarrow> collection_overview \<Rightarrow> table_op list"
    using alterType_not_forbidden [of S r] by (auto split: sum.splits option.splits)
  show ?thesis
    unfolding updateOne_transaction_def Let_def
    by (rule bind_io_not_forbidden)
       (simp_all add: return_io_def invoke_not_forbidden alterTable_not_forbidden later
                 split: option.splits)
qed

lemma deleteOne_transaction_not_forbidden:
  "fst (deleteOne_transaction E S c f x) \<noteq> Inl Forbidden"
  unfolding deleteOne_transaction_def Let_def
  by (intro bind_io_not_forbidden invoke_not_forbidden)
     (simp_all add: return_io_def invoke_not_forbidden split: option.splits)

lemma existing_relation_not_forbidden: "existing_relation S c f \<noteq> Inl Forbidden"
  by (simp add: existing_relation_def split: option.splits)

lemma createOne_forbidden_iff: "fst (createOne E S r) = Inl Forbidden \<longleftrightarrow> nonAdmin S"
proof (cases "nonAdmin S")
  case True
  then show ?thesis by (simp add: createOne_def throw_io_def)
next
  case False
  have run: "fst (bind_io (preColumnChange E S) (\<lambda>runPostColumnChange.
               try_finally (transaction E (createOne_transaction E S r))
                 (createOne_cleanup E runPostColumnChange r))) \<noteq> Inl Forbidden"
    by (intro bind_io_not_forbidden preColumnChange_not_forbidden try_finally_not_forbidden
          transaction_not_forbidden createOne_transaction_not_forbidden
          createOne_cleanup_not_forbidden)
  from False run show ?thesis
    by (simp add: createOne_def throw_io_def Let_def split: option.splits)
qed

lemma updateOne_forbidden_iff: "fst (updateOne E S c f r) = Inl Forbidden \<longleftrightarrow> nonAdmin S"
proof (cases "nonAdmin S")
  case True
  then show ?thesis by (simp add: updateOne_def throw_io_def)
next
  case False
  have run: "fst (bind_io (preColumnChange E S) (\<lambda>runPostColumnChange.
               try_finally (transaction E (updateOne_transaction E S c f r x))
                 (field_cleanup E runPostColumnChange c f))) \<noteq> Inl Forbidden" for x
    by (intro bind_io_not_forbidden preColumnChange_not_forbidden try_finally_not_forbidden
          transaction_not_forbidden updateOne_transaction_not_forbidden
          field_cleanup_not_forbidden)
  from False run existing_relation_not_forbidden [of S c f] show ?thesis
    by (auto simp: updateOne_def throw_io_def split: sum.splits)
qed

lemma deleteOne_forbidden_iff: "fst (deleteOne E S c f) = Inl Forbidden \<longleftrightarrow> nonAdmin S"
proof (cases "nonAdmin S")
  case True
  then show ?thesis by (simp add: deleteOne_def throw_io_def)
next
  case False
  have run: "fst (bind_io (preColumnChange E S) (\<lambda>runPostColumnChange.
               try_finally (transaction E (deleteOne_transaction E S c f x))
                 (field_cleanup E runPostColumnChange c f))) \<noteq> Inl Forbidden" for x
    by (intro bind_io_not_forbidden preColumnChange_not_forbidden try_finally_not_forbidden
          transaction_not_forbidden deleteOne_transaction_not_forbidden
          field_cleanup_not_forbidden)
  from False run existing_relation_not_forbidden [of S c f] show ?thesis
    by (auto simp: deleteOne_def throw_io_def split: sum.splits)
qed


lemma nonAdmin_absent_or_admin:
  "accountability S = None \<Longrightarrow> \<not> nonAdmin S"
  "admin a \<Longrightarrow> \<not> nonAdmin (S\<lparr>accountability := Some a\<rparr>)"
  by (simp_all add: nonAdmin_def)

lemma alterType_accountability:
  "alterType (S\<lparr>accountability := x\<rparr>) r = alterType S r"
  by (simp add: alterType_def cong: option.case_cong)

lemma accountability_irrelevant:
  "preColumnChange E (S\<lparr>accountability := x\<rparr>) = preColumnChange E S"
  "existing_relation (S\<lparr>accountability := x\<rparr>) c f = existing_relation S c f"
  "createOne_transaction E (S\<lparr>accountability := x\<rparr>) r = createOne_transaction E S r"
  "updateOne_transaction E (S\<lparr>accountability := x\<rparr>) c f r y = updateOne_transaction E S c f r y"
  "deleteOne_transaction E (S\<lparr>accountability := x\<rparr>) c f y = deleteOne_transaction E S c f y"
  by (simp_all add: alterType_accountability preColumnChange_def existing_relation_def
        createOne_transaction_def updateOne_transaction_def deleteOne_transaction_def
      cong: option.case_cong sum.case_cong if_cong)

lemma privileged_alike:
  assumes "\<not> nonAdmin S" and "\<not> nonAdmin (S\<lparr>accountability := x\<rparr>)"
  shows "createOne E (S\<lparr>accountability := x\<rparr>) r = createOne E S r"
    and "updateOne E (S\<lparr>accountability := x\<rparr>) c f r = updateOne E S c f r"
    and "deleteOne E (S\<lparr>accountability := x\<rparr>) c f = deleteOne E S c f"
  using assms
  by (simp_all add: createOne_def updateOne_def deleteOne_def accountability_irrelevant
      cong: option.case_cong sum.case_cong if_cong)

text \<open>
  C10, as the code has it. When the accountability is absent, \<open>createOne\<close>,
  \<open>updateOne\<close> and \<open>deleteOne\<close> never raise Forbidden and do exactly what they do for
  an administrative caller; \<open>readAll\<close> returns a list and raises nothing;
  \<open>readOne\<close> passes its permission checks, and then raises Forbidden when, and only
  when, stitching finds no descriptor.
\<close>

theorem absent_accountability:
  assumes "accountability S = None"
  shows "fst (createOne E S r) \<noteq> Inl Forbidden \<and>
         fst (updateOne E S c f r) \<noteq> Inl Forbidden \<and>
         fst (deleteOne E S c f) \<noteq> Inl Forbidden \<and>
         (admin a \<longrightarrow>
            createOne E S r = createOne E (S\<lparr>accountability := Some a\<rparr>) r \<and>
            updateOne E S c f r = updateOne E (S\<lparr>accountability := Some a\<rparr>) c f r \<and>
            deleteOne E S c f = deleteOne E (S\<lparr>accountability := Some a\<rparr>) c f) \<and>
         (\<exists>relations. readAll E S copt = Inr relations) \<and>
         readOne_check S c f = Inr () \<and>
         (readOne E S c f = Inl Forbidden \<longleftrightarrow> readOne_stitched E S c f = [])"
proof -
  have n: "\<not> nonAdmin S" using assms by (rule nonAdmin_absent_or_admin)
  have w: "fst (createOne E S r) \<noteq> Inl Forbidden" "fst (updateOne E S c f r) \<noteq> Inl Forbidden"
    "fst (deleteOne E S c f) \<noteq> Inl Forbidden"
    using n by (simp_all add: createOne_forbidden_iff updateOne_forbidden_iff deleteOne_forbidden_iff)
  have p: "admin a \<longrightarrow>
            createOne E S r = createOne E (S\<lparr>accountability := Some a\<rparr>) r \<and>
            updateOne E S c f r = updateOne E (S\<lparr>accountability := Some a\<rparr>) c f r \<and>
            deleteOne E S c f = deleteOne E (S\<lparr>accountability := Some a\<rparr>) c f"
    using privileged_alike [OF n nonAdmin_absent_or_admin(2), of a E] by simp
  have ra: "\<exists>relations. readAll E S copt = Inr relations"
    using assms by (simp add: readAll_def Let_def)
  have k: "readOne_check S c f = Inr ()"
    using assms by (simp add: readOne_check_def)
  have ro: "readOne E S c f = Inl Forbidden \<longleftrightarrow> readOne_stitched E S c f = []"
    using assms k by (simp add: readOne_def filterForbidden_def split: list.splits)
  from w p ra k ro show ?thesis by blast
qed

theorem absent_accountability_witness:
  "accountability (blog_service None) = None \<and>
   fst (createOne blog_env (blog_service None)
          (new_relation (Some ''articles'') (Some ''editor_id'') (Some ''authors''))) \<noteq> Inl Forbidden \<and>
   (\<exists>relations. readAll blog_env (blog_service None) None = Inr relations) \<and>
   readOne_stitched blog_env (blog_service None) ''articles'' ''author_id'' \<noteq> [] \<and>
   readOne blog_env (blog_service None) ''articles'' ''author_id'' \<noteq> Inl Forbidden"
proof -
  have h: "accountability (blog_service None) = None" by (simp add: blog_service_sel)
  have st: "readOne_stitched blog_env (blog_service None) ''articles'' ''author_id'' \<noteq> []"
    by (simp add: readOne_stitched_def blog_service_sel blog_env_sel stitchRelations_spec_def
                  author_fk_def comment_meta_def)
  from absent_accountability [OF h, where E = blog_env
         and r = "new_relation (Some ''articles'') (Some ''editor_id'') (Some ''authors'')"
         and c = "''articles''" and f = "''author_id''" and a = administrator and copt = None] h st
  show ?thesis by blast
qed

text \<open>
  C10 as the specification words it does not hold: without accountability, \<open>readOne\<close>
  of a field that has no relation raises Forbidden.
\<close>

theorem absent_accountability_readOne_counterexample:
  "accountability (blog_service None) = None \<and>
   readOne blog_env (blog_service None) ''articles'' ''title'' = Inl Forbidden"
  by (simp add: readOne_def readOne_check_def readOne_stitched_def filterForbidden_def
                blog_service_sel blog_env_sel stitchRelations_spec_def author_fk_def comment_meta_def)


section \<open>Validation in \<open>createOne\<close>\<close>

text \<open>
  C2. For an administrative caller, \<open>createOne\<close> checks in this order, and at the
  first check that fails raises InvalidPayload with that check's message, having called no
  collaborator: the collection name is present; the field name is present; the collection
  is in the schema snapshot; the field is in that collection; the field is not the
  collection's primary key; the related collection, when given, is in the snapshot; no
  relation of the collection is on the field. When every check passes, the operation goes
  on to the schema hook and the transaction. In particular, when the field is the primary
  key of the collection, \<open>createOne\<close> raises InvalidPayload and calls nothing: no
  transaction is opened and no table is altered.
\<close>

theorem createOne_validation_order:
  assumes "accountability S = Some a" and "admin a"
  shows \<open>(\<not> truthy (partial_relation.collection r) \<longrightarrow>
            createOne E S r = (Inl (InvalidPayload ''"collection" is required''), [])) \<and>
         (truthy (partial_relation.collection r) \<and> \<not> truthy (partial_relation.field r) \<longrightarrow>
            createOne E S r = (Inl (InvalidPayload ''"field" is required''), [])) \<and>
         (\<forall>c f. partial_relation.collection r = Some c \<and> c \<noteq> [] \<and>
                 partial_relation.field r = Some f \<and> f \<noteq> [] \<longrightarrow>
            (getCollections (RelationsService.schema S) c = None \<longrightarrow>
               createOne E S r =
                 (Inl (InvalidPayload (''Collection "'' @ c @ ''" doesn't exist'')), [])) \<and>
            (\<forall>overview. getCollections (RelationsService.schema S) c = Some overview \<longrightarrow>
               (getFields (RelationsService.schema S) c f = None \<longrightarrow>
                  createOne E S r =
                    (Inl (InvalidPayload
                       (''Field "'' @ f @ ''" doesn't exist in collection "'' @ c @ ''"'')), [])) \<and>
               (getFields (RelationsService.schema S) c f \<noteq> None \<longrightarrow>
                  (primary overview = f \<longrightarrow>
                     createOne E S r =
                       (Inl (InvalidPayload
                          (''Field "'' @ f @ ''" in collection "'' @ c @ ''" is a primary key'')), [])) \<and>
                  (primary overview \<noteq> f \<longrightarrow>
                     (\<forall>rc. partial_relation.related_collection r = Some rc \<and> rc \<noteq> [] \<and>
                           getCollections (RelationsService.schema S) rc = None \<longrightarrow>
                        createOne E S r =
                          (Inl (InvalidPayload (''Collection "'' @ rc @ ''" doesn't exist'')), [])) \<and>
                     (\<not> (\<exists>rc. partial_relation.related_collection r = Some rc \<and> rc \<noteq> [] \<and>
                              getCollections (RelationsService.schema S) rc = None) \<longrightarrow>
                        ((\<exists>existing \<in> set (map snd (getRelationsForCollection (RelationsService.schema S) c)).
                             relation.field existing = f) \<longrightarrow>
                           createOne E S r =
                             (Inl (InvalidPayload
                                (''Field "'' @ f @ ''" in collection "'' @ c
                                   @ ''" already has an associated relationship'')), [])) \<and>
                        ((\<forall>existing \<in> set (map snd (getRelationsForCollection (RelationsService.schema S) c)).
                             relation.field existing \<noteq> f) \<longrightarrow>
                           createOne E S r =
                             bind_io (preColumnChange E S) (\<lambda>runPostColumnChange.
                               try_finally (transaction E (createOne_transaction E S r))
                                 (createOne_cleanup E runPostColumnChange r)))))))) \<and>
         (\<forall>c overview. partial_relation.collection r = Some c \<and>
                 getCollections (RelationsService.schema S) c = Some overview \<and>
                 partial_relation.field r = Some (primary overview) \<longrightarrow>
            (\<exists>message. createOne E S r = (Inl (InvalidPayload message), [])))\<close>
proof -
  have n: "\<not> nonAdmin S" using assms by (simp add: nonAdmin_def)
  have order: \<open>createOne E S r =
      (if \<not> truthy (partial_relation.collection r)
       then (Inl (InvalidPayload ''"collection" is required''), [])
       else if \<not> truthy (partial_relation.field r)
       then (Inl (InvalidPayload ''"field" is required''), [])
       else if getCollections (RelationsService.schema S) c = None
       then (Inl (InvalidPayload (''Collection "'' @ c @ ''" doesn't exist'')), [])
       else if getFields (RelationsService.schema S) c f = None
       then (Inl (InvalidPayload
               (''Field "'' @ f @ ''" doesn't exist in collection "'' @ c @ ''"'')), [])
       else if primary (the (getCollections (RelationsService.schema S) c)) = f
       then (Inl (InvalidPayload
               (''Field "'' @ f @ ''" in collection "'' @ c @ ''" is a primary key'')), [])
       else if truthy (partial_relation.related_collection r) \<and>
               getCollections (RelationsService.schema S)
                 (the (partial_relation.related_collection r)) = None
       then (Inl (InvalidPayload
               (''Collection "'' @ the (partial_relation.related_collection r)
                  @ ''" doesn't exist'')), [])
       else if find (\<lambda>existing. relation.field existing = f)
                 (map snd (getRelationsForCollection (RelationsService.schema S) c)) \<noteq> None
       then (Inl (InvalidPayload
               (''Field "'' @ f @ ''" in collection "'' @ c
                  @ ''" already has an associated relationship'')), [])
       else bind_io (preColumnChange E S) (\<lambda>runPostColumnChange.
              try_finally (transaction E (createOne_transaction E S r))
                (createOne_cleanup E runPostColumnChange r)))\<close>
    if "partial_relation.collection r = Some c" and "partial_relation.field r = Some f" for c f
    using n that by (simp add: createOne_def throw_io_def Let_def split: option.splits)
  have c1: \<open>\<not> truthy (partial_relation.collection r) \<longrightarrow>
            createOne E S r = (Inl (InvalidPayload ''"collection" is required''), [])\<close>
    using n by (simp add: createOne_def throw_io_def)
  have c2: \<open>truthy (partial_relation.collection r) \<and> \<not> truthy (partial_relation.field r) \<longrightarrow>
            createOne E S r = (Inl (InvalidPayload ''"field" is required''), [])\<close>
    using n by (simp add: createOne_def throw_io_def)
  have c3: \<open>\<forall>c overview. partial_relation.collection r = Some c \<and>
                 getCollections (RelationsService.schema S) c = Some overview \<and>
                 partial_relation.field r = Some (primary overview) \<longrightarrow>
            (\<exists>message. createOne E S r = (Inl (InvalidPayload message), []))\<close>
  proof (intro allI impI)
    fix c overview
    assume h: "partial_relation.collection r = Some c \<and>
               getCollections (RelationsService.schema S) c = Some overview \<and>
               partial_relation.field r = Some (primary overview)"
    then show "\<exists>message. createOne E S r = (Inl (InvalidPayload message), [])"
      using order [of c "primary overview"] by (simp add: truthy_def)
  qed
  show ?thesis
    apply (intro conjI)
       apply (rule c1)
      apply (rule c2)
     apply (intro allI impI, elim conjE)
    subgoal for c f
      by (auto simp: order [of c f] truthy_def find_None_forall split: option.splits)
    apply (rule c3)
    done
qed


theorem createOne_validation_order_witness:
  \<open>accountability (blog_service (Some administrator)) = Some administrator \<and> admin administrator \<and>
   createOne blog_env (blog_service (Some administrator))
       (new_relation None (Some ''author_id'') (Some ''authors''))
     = (Inl (InvalidPayload ''"collection" is required''), []) \<and>
   createOne blog_env (blog_service (Some administrator))
       (new_relation (Some ''articles'') None (Some ''authors''))
     = (Inl (InvalidPayload ''"field" is required''), []) \<and>
   createOne blog_env (blog_service (Some administrator))
       (new_relation (Some ''tags'') (Some ''id'') (Some ''people''))
     = (Inl (InvalidPayload ''Collection "tags" doesn't exist''), []) \<and>
   createOne blog_env (blog_service (Some administrator))
       (new_relation (Some ''articles'') (Some ''tag_id'') (Some ''people''))
     = (Inl (InvalidPayload ''Field "tag_id" doesn't exist in collection "articles"''), []) \<and>
   createOne blog_env (blog_service (Some administrator))
       (new_relation (Some ''articles'') (Some ''id'') (Some ''people''))
     = (Inl (InvalidPayload ''Field "id" in collection "articles" is a primary key''), []) \<and>
   createOne blog_env (blog_service (Some administrator))
       (new_relation (Some ''articles'') (Some ''author_id'') (Some ''people''))
     = (Inl (InvalidPayload ''Collection "people" doesn't exist''), []) \<and>
   createOne blog_env (blog_service (Some administrator))
       (new_relation (Some ''articles'') (Some ''author_id'') (Some ''authors''))
     = (Inl (InvalidPayload
          ''Field "author_id" in collection "articles" already has an associated relationship''), []) \<and>
   createOne blog_env (blog_service (Some administrator))
       (new_relation (Some ''articles'') (Some ''editor_id'') (Some ''authors''))
     = bind_io (preColumnChange blog_env (blog_service (Some administrator)))
         (\<lambda>runPostColumnChange.
            try_finally
              (transaction blog_env
                 (createOne_transaction blog_env (blog_service (Some administrator))
                    (new_relation (Some ''articles'') (Some ''editor_id'') (Some ''authors''))))
              (createOne_cleanup blog_env runPostColumnChange
                 (new_relation (Some ''articles'') (Some ''editor_id'') (Some ''authors'')))) \<and>
   (\<exists>message. createOne blog_env (blog_service (Some administrator))
        (new_relation (Some ''articles'') (Some ''id'') (Some ''authors''))
      = (Inl (InvalidPayload message), []))\<close>
proof -
  let ?S = "blog_service (Some administrator)"
  have h1: "accountability ?S = Some administrator" by (simp add: blog_service_sel)
  have h2: "admin administrator" by (simp add: administrator_def)
  note v = createOne_validation_order [OF h1 h2, where E = blog_env]
  note data = new_relation_def truthy_def blog_service_sel blog_schema_sel blog_collections_def
    blog_fields_def blog_relations_def article_author_def comment_article_def
  have r1: \<open>createOne blog_env ?S (new_relation None (Some ''author_id'') (Some ''authors''))
              = (Inl (InvalidPayload ''"collection" is required''), [])\<close>
    using v [where r = "new_relation None (Some ''author_id'') (Some ''authors'')", THEN conjunct1]
    by (simp add: data)
  have r2: \<open>createOne blog_env ?S (new_relation (Some ''articles'') None (Some ''authors''))
              = (Inl (InvalidPayload ''"field" is required''), [])\<close>
    using v [where r = "new_relation (Some ''articles'') None (Some ''authors'')",
             THEN conjunct2, THEN conjunct1]
    by (simp add: data)
  note w = v [THEN conjunct2, THEN conjunct2, THEN conjunct1, rule_format]
  have r3: \<open>createOne blog_env ?S (new_relation (Some ''tags'') (Some ''id'') (Some ''people''))
              = (Inl (InvalidPayload ''Collection "tags" doesn't exist''), [])\<close>
    using w [where r = "new_relation (Some ''tags'') (Some ''id'') (Some ''people'')"
               and c = "''tags''" and f = "''id''", THEN conjunct1]
    by (simp add: data)
  have r4: \<open>createOne blog_env ?S (new_relation (Some ''articles'') (Some ''tag_id'') (Some ''people''))
              = (Inl (InvalidPayload ''Field "tag_id" doesn't exist in collection "articles"''), [])\<close>
    using w [where r = "new_relation (Some ''articles'') (Some ''tag_id'') (Some ''people'')"
               and c = "''articles''" and f = "''tag_id''", THEN conjunct2]
    by (simp add: data)
  have r5: \<open>createOne blog_env ?S (new_relation (Some ''articles'') (Some ''id'') (Some ''people''))
              = (Inl (InvalidPayload ''Field "id" in collection "articles" is a primary key''), [])\<close>
    using w [where r = "new_relation (Some ''articles'') (Some ''id'') (Some ''people'')"
               and c = "''articles''" and f = "''id''", THEN conjunct2]
    by (simp add: data)
  have r6: \<open>createOne blog_env ?S (new_relation (Some ''articles'') (Some ''author_id'') (Some ''people''))
              = (Inl (InvalidPayload ''Collection "people" doesn't exist''), [])\<close>
    using w [where r = "new_relation (Some ''articles'') (Some ''author_id'') (Some ''people'')"
               and c = "''articles''" and f = "''author_id''", THEN conjunct2]
    by (simp add: data)
  have r7: \<open>createOne blog_env ?S (new_relation (Some ''articles'') (Some ''author_id'') (Some ''authors''))
              = (Inl (InvalidPayload
                  ''Field "author_id" in collection "articles" already has an associated relationship''), [])\<close>
    using w [where r = "new_relation (Some ''articles'') (Some ''author_id'') (Some ''authors'')"
               and c = "''articles''" and f = "''author_id''", THEN conjunct2]
    by (simp add: data)
  have r8: \<open>createOne blog_env ?S (new_relation (Some ''articles'') (Some ''editor_id'') (Some ''authors''))
     = bind_io (preColumnChange blog_env ?S)
         (\<lambda>runPostColumnChange.
            try_finally
              (transaction blog_env
                 (createOne_transaction blog_env ?S
                    (new_relation (Some ''articles'') (Some ''editor_id'') (Some ''authors''))))
              (createOne_cleanup blog_env runPostColumnChange
                 (new_relation (Some ''articles'') (Some ''editor_id'') (Some ''authors''))))\<close>
    using w [where r = "new_relation (Some ''articles'') (Some ''editor_id'') (Some ''authors'')"
               and c = "''articles''" and f = "''editor_id''", THEN conjunct2]
    by (simp add: data)
  have r9: \<open>\<exists>message. createOne blog_env ?S (new_relation (Some ''articles'') (Some ''id'') (Some ''authors''))
              = (Inl (InvalidPayload message), [])\<close>
    using v [where r = "new_relation (Some ''articles'') (Some ''id'') (Some ''authors'')",
             THEN conjunct2, THEN conjunct2, THEN conjunct2, rule_format,
             where c = "''articles''" and overview = "\<lparr>primary = ''id''\<rparr>"]
    by (simp add: data)
  from h1 h2 r1 r2 r3 r4 r5 r6 r7 r8 r9 show ?thesis by blast
qed


section \<open>Cleanup after the transaction\<close>







section \<open>The operations on the example data\<close>


lemmas run_defs = bind_io_def invoke_def return_io_def throw_io_def transaction_def alterTable_def
  try_finally_def preColumnChange_def nonAdmin_def truthy_def or_null_def onDelete_def
  array_includes_def Let_def

lemmas blog_data = blog_service_sel blog_schema_sel blog_collections_def blog_fields_def
  blog_relations_def article_author_def comment_article_def author_fk_def comment_fk_def
  administrator_def

lemma existing_author_relation:
  "existing_relation (blog_service acc) ''articles'' ''author_id'' = Inr article_author"
  by (simp add: existing_relation_def blog_data)

lemma existing_comment_relation:
  "existing_relation (blog_service acc) ''comments'' ''article_id'' = Inr comment_article"
  by (simp add: existing_relation_def blog_data)







section \<open>Which calls the operations make\<close>

lemma calls_invoke: "snd (invoke E c) = [c]"
  by (simp add: invoke_def split: option.splits)

lemma calls_bind: "set (snd (bind_io m g)) \<subseteq> set (snd m) \<union> (\<Union>x. set (snd (g x)))"
proof (cases m)
  case (Pair r l)
  show ?thesis
  proof (cases r)
    case (Inl e)
    with Pair show ?thesis by (simp add: bind_io_def)
  next
    case (Inr y)
    obtain r' l' where g: "g y = (r', l')" by (cases "g y")
    then have "set l' \<subseteq> (\<Union>x. set (snd (g x)))"
      by (metis UNIV_I UN_upper snd_conv)
    with Pair Inr g show ?thesis by (auto simp: bind_io_def)
  qed
qed

lemma calls_try_finally: "set (snd (try_finally body cleanup)) = set (snd body) \<union> set (snd cleanup)"
  by (auto simp: try_finally_def split: prod.splits sum.splits)

lemma calls_transaction:
  "set (snd (transaction E body)) \<subseteq> {TransactionBegin, Commit, Rollback} \<union> set (snd body)"
  by (auto simp: transaction_def bind_io_def invoke_def split: prod.splits sum.splits option.splits)

lemma calls_preColumnChange: "snd (preColumnChange E S) = [PreColumnChange]"
  by (simp add: preColumnChange_def bind_io_def invoke_def return_io_def split: option.splits)

lemma calls_field_cleanup:
  "set (snd (field_cleanup E b c f)) \<subseteq> {PostColumnChange, ClearRelationsForField c f}"
  by (auto simp: field_cleanup_def bind_io_def invoke_def return_io_def
           split: prod.splits sum.splits option.splits if_splits)

lemma calls_deleteOne_transaction:
  "set (snd (deleteOne_transaction E S c f x)) \<subseteq>
     {ForeignKeys} \<union>
     {AlterTable (relation.collection x) [DropForeign (relation.field x) n] | sc n.
        relation.schema x = Some sc \<and> constraint_name sc = Some n \<and> n \<noteq> [] \<and>
        Some n \<in> set (map constraint_name (schemaInspector S None))} \<union>
     {DeleteRelations c f | m. relation.meta x = Some m}"
  by (auto simp: deleteOne_transaction_def bind_io_def invoke_def return_io_def truthy_def
                 array_includes_def Let_def
           split: prod.splits sum.splits option.splits if_splits)

lemma calls_deleteOne:
  assumes "existing_relation S c f = Inr x"
  shows "set (snd (deleteOne E S c f)) \<subseteq>
     {PreColumnChange, TransactionBegin, Commit, Rollback, ForeignKeys, PostColumnChange,
      ClearRelationsForField c f} \<union>
     {AlterTable (relation.collection x) [DropForeign (relation.field x) n] | sc n.
        relation.schema x = Some sc \<and> constraint_name sc = Some n \<and> n \<noteq> [] \<and>
        Some n \<in> set (map constraint_name (schemaInspector S None))} \<union>
     {DeleteRelations c f | m. relation.meta x = Some m}"
proof (cases "nonAdmin S")
  case True
  then show ?thesis by (simp add: deleteOne_def throw_io_def)
next
  case False
  have "set (snd (deleteOne E S c f)) \<subseteq>
          set (snd (preColumnChange E S)) \<union>
          (\<Union>b. set (snd (try_finally (transaction E (deleteOne_transaction E S c f x))
                           (field_cleanup E b c f))))"
    using False assms calls_bind [of "preColumnChange E S"] by (simp add: deleteOne_def)
  also have "\<dots> \<subseteq> {PreColumnChange} \<union>
          (set (snd (transaction E (deleteOne_transaction E S c f x))) \<union>
           {PostColumnChange, ClearRelationsForField c f})"
    using calls_field_cleanup [of E _ c f]
    by (auto simp: calls_preColumnChange calls_try_finally)
  also have "\<dots> \<subseteq> {PreColumnChange} \<union>
          (({TransactionBegin, Commit, Rollback} \<union> set (snd (deleteOne_transaction E S c f x))) \<union>
           {PostColumnChange, ClearRelationsForField c f})"
    using calls_transaction [of E "deleteOne_transaction E S c f x"] by blast
  finally show ?thesis
    using calls_deleteOne_transaction [of E S c f x] by blast
qed


section \<open>Deleting a relation\<close>

lemma deleteOne_run:
  assumes "\<not> nonAdmin S" and "existing_relation S c f = Inr x"
  shows "deleteOne E S c f =
           bind_io (preColumnChange E S) (\<lambda>runPostColumnChange.
             try_finally (transaction E (deleteOne_transaction E S c f x))
               (field_cleanup E runPostColumnChange c f))"
  using assms by (simp add: deleteOne_def)

text \<open>
  C5. For an existing relation on (collection, field), \<open>deleteOne\<close> asks for the
  foreign keys of the database inside the transaction, before any change. It drops a
  constraint only when the relation records a constraint name that is among the names just
  fetched, and the constraint it drops is that one; it deletes the metadata rows of
  (collection, field) only when the relation has metadata. So when the recorded constraint
  is no longer in the database, no constraint is dropped: if the other calls do not raise,
  \<open>deleteOne\<close> returns without raising and, when the relation has metadata, has deleted
  its row. When the recorded constraint is in the database and nothing raises, it is
  dropped before the metadata row is deleted.
\<close>

theorem deleteOne_live_constraints:
  assumes "\<not> nonAdmin S" and "existing_relation S c f = Inr x"
  shows "(\<forall>t ops. AlterTable t ops \<in> set (snd (deleteOne E S c f)) \<longrightarrow>
            (\<exists>sc n. relation.schema x = Some sc \<and> constraint_name sc = Some n \<and> n \<noteq> [] \<and>
                    Some n \<in> set (map constraint_name (schemaInspector S None)) \<and>
                    t = relation.collection x \<and> ops = [DropForeign (relation.field x) n])) \<and>
         (\<forall>c' f'. DeleteRelations c' f' \<in> set (snd (deleteOne E S c f)) \<longrightarrow>
            relation.meta x \<noteq> None \<and> c' = c \<and> f' = f) \<and>
         (raises E PreColumnChange = None \<and> raises E TransactionBegin = None \<longrightarrow>
            take 3 (snd (deleteOne E S c f)) = [PreColumnChange, TransactionBegin, ForeignKeys]) \<and>
         ((\<forall>call. (\<forall>t ops. call \<noteq> AlterTable t ops) \<longrightarrow> raises E call = None) \<and>
          \<not> (\<exists>sc n. relation.schema x = Some sc \<and> constraint_name sc = Some n \<and> n \<noteq> [] \<and>
                  Some n \<in> set (map constraint_name (schemaInspector S None))) \<longrightarrow>
            deleteOne E S c f =
              (Inr (),
               [PreColumnChange, TransactionBegin, ForeignKeys] @
               (if relation.meta x \<noteq> None then [DeleteRelations c f] else []) @
               [Commit] @ (if helpers S then [PostColumnChange] else []) @
               [ClearRelationsForField c f])) \<and>
         ((\<forall>call. raises E call = None) \<longrightarrow>
            (\<forall>sc n. relation.schema x = Some sc \<and> constraint_name sc = Some n \<and> n \<noteq> [] \<and>
                    Some n \<in> set (map constraint_name (schemaInspector S None)) \<longrightarrow>
               deleteOne E S c f =
                 (Inr (),
                  [PreColumnChange, TransactionBegin, ForeignKeys,
                   AlterTable (relation.collection x) [DropForeign (relation.field x) n]] @
                  (if relation.meta x \<noteq> None then [DeleteRelations c f] else []) @
                  [Commit] @ (if helpers S then [PostColumnChange] else []) @
                  [ClearRelationsForField c f])))"
proof -
  note calls = calls_deleteOne [OF assms(2), of E]
  note run = deleteOne_run [OF assms, of E]
  have drop: "\<forall>t ops. AlterTable t ops \<in> set (snd (deleteOne E S c f)) \<longrightarrow>
            (\<exists>sc n. relation.schema x = Some sc \<and> constraint_name sc = Some n \<and> n \<noteq> [] \<and>
                    Some n \<in> set (map constraint_name (schemaInspector S None)) \<and>
                    t = relation.collection x \<and> ops = [DropForeign (relation.field x) n])"
    using calls by (auto simp del: set_map)
  have del: "\<forall>c' f'. DeleteRelations c' f' \<in> set (snd (deleteOne E S c f)) \<longrightarrow>
            relation.meta x \<noteq> None \<and> c' = c \<and> f' = f"
    using calls by auto
  have first: "raises E PreColumnChange = None \<and> raises E TransactionBegin = None \<longrightarrow>
            take 3 (snd (deleteOne E S c f)) = [PreColumnChange, TransactionBegin, ForeignKeys]"
    unfolding run
    by (auto simp: preColumnChange_def transaction_def deleteOne_transaction_def try_finally_def
                   bind_io_def invoke_def return_io_def
             split: prod.splits sum.splits option.splits)
  have gone: "(\<forall>call. (\<forall>t ops. call \<noteq> AlterTable t ops) \<longrightarrow> raises E call = None) \<and>
          \<not> (\<exists>sc n. relation.schema x = Some sc \<and> constraint_name sc = Some n \<and> n \<noteq> [] \<and>
                  Some n \<in> set (map constraint_name (schemaInspector S None))) \<longrightarrow>
            deleteOne E S c f =
              (Inr (),
               [PreColumnChange, TransactionBegin, ForeignKeys] @
               (if relation.meta x \<noteq> None then [DeleteRelations c f] else []) @
               [Commit] @ (if helpers S then [PostColumnChange] else []) @
               [ClearRelationsForField c f])"
  proof (intro impI, elim conjE)
    assume quiet: "\<forall>call. (\<forall>t ops. call \<noteq> AlterTable t ops) \<longrightarrow> raises E call = None"
      and absent: "\<not> (\<exists>sc n. relation.schema x = Some sc \<and> constraint_name sc = Some n \<and> n \<noteq> [] \<and>
                  Some n \<in> set (map constraint_name (schemaInspector S None)))"
    from quiet have q: "raises E PreColumnChange = None" "raises E TransactionBegin = None"
      "raises E ForeignKeys = None" "raises E (DeleteRelations c f) = None"
      "raises E Commit = None" "raises E PostColumnChange = None"
      "raises E (ClearRelationsForField c f) = None"
      by simp_all
    have body: "deleteOne_transaction E S c f x =
                  (Inr (), [ForeignKeys] @ (if relation.meta x \<noteq> None then [DeleteRelations c f] else []))"
      using absent q
      by (auto simp: deleteOne_transaction_def bind_io_def invoke_def return_io_def truthy_def
                     array_includes_def Let_def
               split: option.splits)
    show "deleteOne E S c f =
              (Inr (),
               [PreColumnChange, TransactionBegin, ForeignKeys] @
               (if relation.meta x \<noteq> None then [DeleteRelations c f] else []) @
               [Commit] @ (if helpers S then [PostColumnChange] else []) @
               [ClearRelationsForField c f])"
      unfolding run body using q
      by (simp add: preColumnChange_def transaction_def try_finally_def field_cleanup_def
                    bind_io_def invoke_def return_io_def)
  qed
  have live: "(\<forall>call. raises E call = None) \<longrightarrow>
            (\<forall>sc n. relation.schema x = Some sc \<and> constraint_name sc = Some n \<and> n \<noteq> [] \<and>
                    Some n \<in> set (map constraint_name (schemaInspector S None)) \<longrightarrow>
               deleteOne E S c f =
                 (Inr (),
                  [PreColumnChange, TransactionBegin, ForeignKeys,
                   AlterTable (relation.collection x) [DropForeign (relation.field x) n]] @
                  (if relation.meta x \<noteq> None then [DeleteRelations c f] else []) @
                  [Commit] @ (if helpers S then [PostColumnChange] else []) @
                  [ClearRelationsForField c f]))"
  proof (intro impI allI, elim conjE)
    fix sc n
    assume quiet: "\<forall>call. raises E call = None"
      and rec: "relation.schema x = Some sc" "constraint_name sc = Some n" "n \<noteq> []"
        "Some n \<in> set (map constraint_name (schemaInspector S None))"
    have body: "deleteOne_transaction E S c f x =
                  (Inr (), [ForeignKeys, AlterTable (relation.collection x) [DropForeign (relation.field x) n]]
                           @ (if relation.meta x \<noteq> None then [DeleteRelations c f] else []))"
      using quiet rec
      by (auto simp: deleteOne_transaction_def bind_io_def invoke_def return_io_def truthy_def
                     array_includes_def Let_def
               split: option.splits)
    show "deleteOne E S c f =
                 (Inr (),
                  [PreColumnChange, TransactionBegin, ForeignKeys,
                   AlterTable (relation.collection x) [DropForeign (relation.field x) n]] @
                  (if relation.meta x \<noteq> None then [DeleteRelations c f] else []) @
                  [Commit] @ (if helpers S then [PostColumnChange] else []) @
                  [ClearRelationsForField c f])"
      unfolding run body using quiet
      by (simp add: preColumnChange_def transaction_def try_finally_def field_cleanup_def
                    bind_io_def invoke_def return_io_def)
  qed
  from drop del first gone live show ?thesis by blast
qed


theorem deleteOne_live_constraints_witness:
  "\<not> nonAdmin (blog_service (Some administrator)) \<and>
   existing_relation (blog_service (Some administrator)) ''comments'' ''article_id'' = Inr comment_article \<and>
   relation.schema comment_article = Some comment_fk \<and>
   constraint_name comment_fk = Some ''comments_article_id_foreign'' \<and>
   Some ''comments_article_id_foreign''
     \<notin> set (map constraint_name (schemaInspector (blog_service (Some administrator)) None)) \<and>
   raises rigid_env (AlterTable ''comments'' [DropForeign ''article_id'' ''comments_article_id_foreign''])
     = Some ''constraint does not exist'' \<and>
   deleteOne rigid_env (blog_service (Some administrator)) ''comments'' ''article_id''
     = (Inr (),
        [PreColumnChange, TransactionBegin, ForeignKeys, DeleteRelations ''comments'' ''article_id'',
         Commit, PostColumnChange, ClearRelationsForField ''comments'' ''article_id'']) \<and>
   existing_relation (blog_service (Some administrator)) ''articles'' ''author_id'' = Inr article_author \<and>
   deleteOne blog_env (blog_service (Some administrator)) ''articles'' ''author_id''
     = (Inr (),
        [PreColumnChange, TransactionBegin, ForeignKeys,
         AlterTable ''articles'' [DropForeign ''author_id'' ''articles_author_id_foreign''],
         Commit, PostColumnChange, ClearRelationsForField ''articles'' ''author_id''])"
proof -
  let ?S = "blog_service (Some administrator)"
  have n: "\<not> nonAdmin ?S"
    by (simp add: nonAdmin_def blog_service_sel administrator_def)
  have quiet: "\<forall>call. (\<forall>t ops. call \<noteq> AlterTable t ops) \<longrightarrow> raises rigid_env call = None"
    by (auto simp: rigid_env_def blog_env_def split: call.splits)
  have rigid: "raises rigid_env (AlterTable ''comments'' [DropForeign ''article_id'' ''comments_article_id_foreign''])
                 = Some ''constraint does not exist''"
    by (simp add: rigid_env_def blog_env_def)
  have sc: "relation.schema comment_article = Some comment_fk"
    and cn: "constraint_name comment_fk = Some ''comments_article_id_foreign''"
    and cm: "relation.meta comment_article \<noteq> None"
    by (simp_all add: comment_article_def comment_fk_def)
  have names: "map constraint_name (schemaInspector ?S None) = [Some ''articles_author_id_foreign'']"
    by (simp add: blog_service_sel author_fk_def)
  have gone: "Some ''comments_article_id_foreign'' \<notin> set (map constraint_name (schemaInspector ?S None))"
    unfolding names by simp
  have absent: "\<not> (\<exists>sc n. relation.schema comment_article = Some sc \<and> constraint_name sc = Some n \<and>
                   n \<noteq> [] \<and> Some n \<in> set (map constraint_name (schemaInspector ?S None)))"
    using gone by (simp add: sc cn)
  have d1: "deleteOne rigid_env ?S ''comments'' ''article_id''
     = (Inr (),
        [PreColumnChange, TransactionBegin, ForeignKeys, DeleteRelations ''comments'' ''article_id'',
         Commit, PostColumnChange, ClearRelationsForField ''comments'' ''article_id''])"
    using deleteOne_live_constraints [OF n existing_comment_relation, of rigid_env] quiet absent cm
    by (simp add: blog_service_sel)
  have live: "relation.schema article_author = Some author_fk \<and>
              constraint_name author_fk = Some ''articles_author_id_foreign'' \<and>
              ''articles_author_id_foreign'' \<noteq> [] \<and>
              Some ''articles_author_id_foreign'' \<in> set (map constraint_name (schemaInspector ?S None))"
    unfolding names by (simp add: article_author_def author_fk_def)
  have d2: "deleteOne blog_env ?S ''articles'' ''author_id''
     = (Inr (),
        [PreColumnChange, TransactionBegin, ForeignKeys,
         AlterTable ''articles'' [DropForeign ''author_id'' ''articles_author_id_foreign''],
         Commit, PostColumnChange, ClearRelationsForField ''articles'' ''author_id''])"
    using deleteOne_live_constraints [OF n existing_author_relation, of blog_env,
            THEN conjunct2, THEN conjunct2, THEN conjunct2, THEN conjunct2, rule_format,
            OF blog_env_sel(4) live]
    by (simp add: blog_service_sel article_author_def)
  from n existing_comment_relation [of "Some administrator"] sc cn gone rigid d1
       existing_author_relation [of "Some administrator"] d2
  show ?thesis by blast
qed


section \<open>Updating a relation that has no metadata row\<close>

lemma in_calls_bind:
  "call \<in> set (snd (bind_io m g)) \<Longrightarrow> call \<in> set (snd m) \<or> (\<exists>x. call \<in> set (snd (g x)))"
  using calls_bind [of m g] by blast

lemma calls_alterTable:
  "call \<in> set (snd (if b then alterTable E c asked_first asked_later else return_io ()))
   \<Longrightarrow> \<exists>ops. call = AlterTable c ops"
  by (cases asked_later)
     (auto simp: alterTable_def throw_io_def return_io_def calls_invoke split: if_splits)

lemma updateOne_created_row:
  assumes "ItemsCreateOne row \<in> set (snd (updateOne_transaction E S c f p x))"
  shows "row_many_collection row = partial_relation.collection p \<and>
         row_many_field row = partial_relation.field p \<and>
         row_one_collection row = or_null (relation.related_collection x)"
proof -
  from assms [unfolded updateOne_transaction_def Let_def, THEN in_calls_bind]
  show ?thesis
  proof
    assume "ItemsCreateOne row \<in> set (snd
       (if truthy (relation.related_collection x) then
          alterTable E c
            (case relation.schema x of
               None \<Rightarrow> []
             | Some sc \<Rightarrow>
                 [DropForeign f
                    (case relation.schema x of
                       None \<Rightarrow> getDefaultIndexName E ''foreign'' c f
                     | Some sc \<Rightarrow>
                         if truthy (constraint_name sc) then the (constraint_name sc)
                         else getDefaultIndexName E ''foreign'' c f)])
            (case alterType S p of
               Inl e \<Rightarrow> Inl e
             | Inr ops \<Rightarrow>
                 (case getCollection (RelationsService.schema S) (the (relation.related_collection x)) of
                    None \<Rightarrow> Inl TypeError
                  | Some relatedOverview \<Rightarrow>
                      Inr (ops @
                           [Foreign f
                              (or_null (Some (case relation.schema x of
                                 None \<Rightarrow> getDefaultIndexName E ''foreign'' c f
                               | Some sc \<Rightarrow>
                                   if truthy (constraint_name sc) then the (constraint_name sc)
                                   else getDefaultIndexName E ''foreign'' c f)))
                              (the (relation.related_collection x) @ ''.'' @ primary relatedOverview)
                              (onDelete p)])))
        else return_io ()))"
    then show ?thesis by (auto dest: calls_alterTable)
  next
    assume "\<exists>u::unit. ItemsCreateOne row \<in> set (snd
       (case partial_relation.meta p of
          None \<Rightarrow> return_io ()
        | Some newMeta \<Rightarrow>
            (case relation.meta x of
               Some existingMeta \<Rightarrow> invoke E (ItemsUpdateOne (meta_id existingMeta) newMeta)
             | None \<Rightarrow>
                 invoke E
                   (ItemsCreateOne
                      \<lparr>spread = Some newMeta,
                       row_many_collection = partial_relation.collection p,
                       row_many_field = partial_relation.field p,
                       row_one_collection = or_null (relation.related_collection x)\<rparr>))))"
    then show ?thesis
      by (auto simp: return_io_def calls_invoke split: option.splits)
  qed
qed

text \<open>
  C4 on the code. The relation on \<open>articles.author_id\<close> has a foreign key and no
  metadata row. Updating it with a patch whose own attributes name \<open>articles.editor_id\<close>
  succeeds, and the metadata row that is created is a row for \<open>articles.editor_id\<close>:
  the relation that was updated still has no metadata, and the metadata describes a
  relation on another field. This is so whether or not the table builder waits for the
  callback of \<^verbatim>\<open>alterTable\<close>. When it waits, the constraint on \<open>author_id\<close> is
  dropped and created again as it was, and the type that is altered is that of
  \<open>editor_id\<close>; when it does not, the constraint is dropped and not created again.
\<close>

theorem updateOne_schema_only_creates_row_of_patch:
  "existing_relation (blog_service (Some administrator)) ''articles'' ''author_id'' = Inr article_author \<and>
   relation.meta article_author = None \<and>
   updateOne blog_env (blog_service (Some administrator)) ''articles'' ''author_id'' editor_patch
     = (Inr (),
        [PreColumnChange, TransactionBegin,
         AlterTable ''articles''
           [DropForeign ''author_id'' ''articles_author_id_foreign'',
            SpecificTypeAlter (Some ''editor_id'') ''int unsigned'',
            Foreign ''author_id'' (Some ''articles_author_id_foreign'') ''authors.id'' None],
         ItemsCreateOne
           \<lparr>spread = Some author_meta, row_many_collection = Some ''articles'',
            row_many_field = Some ''editor_id'', row_one_collection = Some ''authors''\<rparr>,
         Commit, PostColumnChange, ClearRelationsForField ''articles'' ''author_id'']) \<and>
   updateOne unawaited_env (blog_service (Some administrator)) ''articles'' ''author_id'' editor_patch
     = (Inr (),
        [PreColumnChange, TransactionBegin,
         AlterTable ''articles'' [DropForeign ''author_id'' ''articles_author_id_foreign''],
         ItemsCreateOne
           \<lparr>spread = Some author_meta, row_many_collection = Some ''articles'',
            row_many_field = Some ''editor_id'', row_one_collection = Some ''authors''\<rparr>,
         Commit, PostColumnChange, ClearRelationsForField ''articles'' ''author_id''])"
  by (simp add: updateOne_def existing_author_relation updateOne_transaction_def field_cleanup_def
        alterType_def editor_patch_def run_defs blog_data blog_env_sel unawaited_env_sel)

section \<open>The type-compatibility fix on an update\<close>

text \<open>
  C7 on the code. \<open>articles.author_id\<close> is an \<^verbatim>\<open>int\<close> column and the primary key
  of \<open>authors\<close> is \<^verbatim>\<open>int unsigned\<close>, so updating the relation between them calls
  for the fix. \<open>updateOne\<close> gives \<open>alterType\<close> the caller's patch, not the relation
  being updated. With a patch that carries metadata only, \<open>alterType\<close> looks up a
  field without collection and name and raises a TypeError: the type of \<open>author_id\<close>
  is not altered. When the table builder waits for the callback the update fails and rolls
  back; when it does not, the error is lost, the constraint is dropped and not created
  again, and the update commits. With a patch that names \<open>articles.editor_id\<close>, the
  fix is asked for \<open>editor_id\<close>. And when the table builder does not wait,
  \<open>createOne\<close> alters the table with nothing asked: neither the fix nor the constraint
  of a new relation reaches the database.
\<close>

theorem updateOne_type_fix_follows_patch:
  "existing_relation (blog_service (Some administrator)) ''articles'' ''author_id'' = Inr article_author \<and>
   getField (RelationsService.schema (blog_service (Some administrator)))
       (Some ''articles'') (Some ''author_id'') = Some \<lparr>dbType = Some ''int''\<rparr> \<and>
   getPrimaryKeyField (RelationsService.schema (blog_service (Some administrator)))
       (Some ''authors'') = Some \<lparr>dbType = Some ''int unsigned''\<rparr> \<and>
   alterType (blog_service (Some administrator)) meta_patch = Inl TypeError \<and>
   updateOne blog_env (blog_service (Some administrator)) ''articles'' ''author_id'' meta_patch
     = (Inl TypeError,
        [PreColumnChange, TransactionBegin, Rollback, PostColumnChange,
         ClearRelationsForField ''articles'' ''author_id'']) \<and>
   updateOne unawaited_env (blog_service (Some administrator)) ''articles'' ''author_id'' meta_patch
     = (Inr (),
        [PreColumnChange, TransactionBegin,
         AlterTable ''articles'' [DropForeign ''author_id'' ''articles_author_id_foreign''],
         ItemsCreateOne
           \<lparr>spread = Some author_meta, row_many_collection = None,
            row_many_field = None, row_one_collection = Some ''authors''\<rparr>,
         Commit, PostColumnChange, ClearRelationsForField ''articles'' ''author_id'']) \<and>
   alterType (blog_service (Some administrator)) editor_patch
     = Inr [SpecificTypeAlter (Some ''editor_id'') ''int unsigned''] \<and>
   createOne unawaited_env (blog_service (Some administrator))
       (new_relation (Some ''articles'') (Some ''editor_id'') (Some ''authors''))
     = (Inr (),
        [PreColumnChange, TransactionBegin, AlterTable ''articles'' [],
         ItemsCreateOne
           \<lparr>spread = None, row_many_collection = Some ''articles'',
            row_many_field = Some ''editor_id'', row_one_collection = Some ''authors''\<rparr>,
         Commit, PostColumnChange, SetHashFull ''relations:articles'' False])"
proof -
  let ?S = "blog_service (Some administrator)"
  have owning: "getField (RelationsService.schema ?S) (Some ''articles'') (Some ''author_id'')
                  = Some \<lparr>dbType = Some ''int''\<rparr>"
    and key: "getPrimaryKeyField (RelationsService.schema ?S) (Some ''authors'')
                  = Some \<lparr>dbType = Some ''int unsigned''\<rparr>"
    by (simp_all add: blog_data)
  have t: "alterType ?S meta_patch = Inl TypeError"
    by (simp add: alterType_def meta_patch_def blog_data)
  have u1: "updateOne blog_env ?S ''articles'' ''author_id'' meta_patch
     = (Inl TypeError,
        [PreColumnChange, TransactionBegin, Rollback, PostColumnChange,
         ClearRelationsForField ''articles'' ''author_id''])"
    by (simp add: updateOne_def existing_author_relation updateOne_transaction_def field_cleanup_def
          alterType_def meta_patch_def run_defs blog_data blog_env_sel)
  have u2: "updateOne unawaited_env ?S ''articles'' ''author_id'' meta_patch
     = (Inr (),
        [PreColumnChange, TransactionBegin,
         AlterTable ''articles'' [DropForeign ''author_id'' ''articles_author_id_foreign''],
         ItemsCreateOne
           \<lparr>spread = Some author_meta, row_many_collection = None,
            row_many_field = None, row_one_collection = Some ''authors''\<rparr>,
         Commit, PostColumnChange, ClearRelationsForField ''articles'' ''author_id''])"
    by (simp add: updateOne_def existing_author_relation updateOne_transaction_def field_cleanup_def
          alterType_def meta_patch_def run_defs blog_data unawaited_env_sel)
  have e: "alterType ?S editor_patch = Inr [SpecificTypeAlter (Some ''editor_id'') ''int unsigned'']"
    by (simp add: alterType_def editor_patch_def blog_data)
  have c: "createOne unawaited_env ?S
       (new_relation (Some ''articles'') (Some ''editor_id'') (Some ''authors''))
     = (Inr (),
        [PreColumnChange, TransactionBegin, AlterTable ''articles'' [],
         ItemsCreateOne
           \<lparr>spread = None, row_many_collection = Some ''articles'',
            row_many_field = Some ''editor_id'', row_one_collection = Some ''authors''\<rparr>,
         Commit, PostColumnChange, SetHashFull ''relations:articles'' False])"
    by (simp add: createOne_def createOne_transaction_def createOne_cleanup_def
          new_relation_def run_defs blog_data unawaited_env_sel)
  from existing_author_relation [of "Some administrator"] owning key t u1 u2 e c
  show ?thesis by blast
qed

end
